theory Spec2Isabelle
  imports Main
begin

section \<open>JavaScript strings, values and exceptions\<close>

text \<open>
  A JavaScript string is a sequence of UTF-16 code units; a code unit is modelled as a
  natural number, so that the letters of the German rules (\<open>0xFC\<close> for u-umlaut) and the
  currency signs are single units as they are in the source. \<open>str\<close> turns an ASCII
  literal into such a string.
\<close>

type_synonym jsstring = "nat list"

definition str :: "string \<Rightarrow> jsstring" where
  "str s = map of_char s"

text \<open>
  Exceptions are values. \<open>Thrown\<close> is an exception raised by a detection function
  itself; the other three are raised by the language and by the DOM.
\<close>

datatype exn = TypeError | SyntaxError | InvalidCharacterError | Thrown jsstring

section \<open>The document tree\<close>

text \<open>
  An element carries what the content script reads and writes: its tag, the
  \<open>data-phid\<close> attribute (\<open>None\<close> when the attribute is absent), its class list, and,
  for the live document, what \<open>getComputedStyle\<close> and the layout report for it.
  \<open>html\<close> says that the element is an HTML element. The other elements of a page are
  SVG and MathML elements: they have a \<open>dataset\<close> and a class list as well, but neither
  \<open>innerText\<close> nor \<open>offsetWidth\<close> and \<open>offsetHeight\<close>, which are properties of HTML
  elements only. Text nodes carry their data. Comments take no part in any function and
  are left out.
\<close>

record element =
  tagName :: jsstring
  html :: bool
  phid :: "jsstring option"
  classList :: "jsstring list"
  visibility :: jsstring
  display :: jsstring
  opacity :: jsstring
  offsetWidth :: int
  offsetHeight :: int
  clientRects :: nat

datatype node = Element element "node list" | Text jsstring

text \<open>
  \<open>textContent\<close> of a node is the data of the text nodes in it, in document order.
  \<open>innerText\<close> is a property of HTML elements: reading it from a text node or from an
  SVG or MathML element gives \<open>undefined\<close> (\<open>None\<close>). For an HTML element that is not
  rendered (both snapshots are detached clones) it is the \<open>textContent\<close>.
\<close>

fun textContent :: "node \<Rightarrow> jsstring" where
  "textContent (Text s) = s"
| "textContent (Element a cs) = concat (map textContent cs)"

fun innerText :: "node \<Rightarrow> jsstring option" where
  "innerText (Text s) = None"
| "innerText (Element a cs) = (if html a then Some (textContent (Element a cs)) else None)"

text \<open>
  A value that is a string or \<open>undefined\<close>, converted to a string: the argument of
  \<open>RegExp.prototype.test\<close> is converted so, and \<open>undefined\<close> becomes the text
  \<open>undefined\<close>.
\<close>

definition toString :: "jsstring option \<Rightarrow> jsstring" where
  "toString v = (case v of None \<Rightarrow> str ''undefined'' | Some s \<Rightarrow> s)"

datatype jsval =
    Undefined
  | Null
  | Bool bool
  | Num int
  | Str jsstring
  | Arr "jsval list"
  | Fun nat "node \<Rightarrow> node option \<Rightarrow> exn + jsval"

text \<open>
  \<open>Fun k f\<close> is a function object with \<open>k\<close> declared parameters (its \<open>length\<close>) that
  behaves as \<open>f\<close> when called with the current node and the previous one
  (\<open>None\<close> for \<open>null\<close>).
\<close>

type_synonym detector = "node \<Rightarrow> node option \<Rightarrow> exn + jsval"

fun truthy :: "jsval \<Rightarrow> bool" where
  "truthy Undefined = False"
| "truthy Null = False"
| "truthy (Bool b) = b"
| "truthy (Num n) = (n \<noteq> 0)"
| "truthy (Str s) = (s \<noteq> [])"
| "truthy (Arr xs) = True"
| "truthy (Fun k f) = True"

fun typeofString :: "jsval \<Rightarrow> bool" where
  "typeofString (Str s) = True"
| "typeofString v = False"

fun typeofFunction :: "jsval \<Rightarrow> bool" where
  "typeofFunction (Fun k f) = True"
| "typeofFunction v = False"

fun isArray :: "jsval \<Rightarrow> bool" where
  "isArray (Arr xs) = True"
| "isArray v = False"

fun arrayElements :: "jsval \<Rightarrow> jsval list" where
  "arrayElements (Arr xs) = xs"
| "arrayElements v = []"

fun functionLength :: "jsval \<Rightarrow> nat" where
  "functionLength (Fun k f) = k"
| "functionLength v = 0"

section \<open>The pattern configuration and its validation (constants.js)\<close>

text \<open>
  \<open>validatePatternConfig\<close> inspects the configuration as plain objects, whose
  properties may be missing or of any type: an object is a map from property names to
  values, \<open>Undefined\<close> for a property that is not there.
\<close>

type_synonym jsobject = "string \<Rightarrow> jsval"

fun obj :: "(string \<times> jsval) list \<Rightarrow> jsobject" where
  "obj kvs k = (case map_of kvs k of None \<Rightarrow> Undefined | Some v \<Rightarrow> v)"

text \<open>
  \<open>new Set(names).size\<close>: a set keeps one of several values that are the same under
  SameValueZero. Primitive values are the same when they are equal; arrays and functions
  are objects, each literal of the configuration a different one.
\<close>

fun sameValueZero :: "jsval \<Rightarrow> jsval \<Rightarrow> bool" where
  "sameValueZero Undefined Undefined = True"
| "sameValueZero Null Null = True"
| "sameValueZero (Bool a) (Bool b) = (a = b)"
| "sameValueZero (Num a) (Num b) = (a = b)"
| "sameValueZero (Str a) (Str b) = (a = b)"
| "sameValueZero v w = False"

definition setAdd :: "jsval list \<Rightarrow> jsval \<Rightarrow> jsval list" where
  "setAdd s v = (if list_ex (sameValueZero v) s then s else s @ [v])"

definition newSet :: "jsval list \<Rightarrow> jsval list" where
  "newSet vs = foldl setAdd [] vs"

text \<open>The loop over the detection functions of one pattern.\<close>

fun validateDetectionFuncs :: "jsval list \<Rightarrow> bool" where
  "validateDetectionFuncs [] = True"
| "validateDetectionFuncs (detectionFunc # rest) =
     (if \<not> typeofFunction detectionFunc \<or> functionLength detectionFunc \<noteq> 2 then False
      else validateDetectionFuncs rest)"

text \<open>The loop over the patterns: the checks in the order of the source.\<close>

fun validatePatterns :: "jsobject list \<Rightarrow> bool" where
  "validatePatterns [] = True"
| "validatePatterns (pattern # rest) =
     (if \<not> truthy (pattern ''name'') \<or> \<not> typeofString (pattern ''name'') then False
      else if \<not> truthy (pattern ''className'') \<or> \<not> typeofString (pattern ''className'')
        then False
      else if \<not> isArray (pattern ''detectionFunctions'')
          \<or> length (arrayElements (pattern ''detectionFunctions'')) \<le> 0
        then False
      else if \<not> validateDetectionFuncs (arrayElements (pattern ''detectionFunctions''))
        then False
      else if \<not> truthy (pattern ''infoUrl'') \<or> \<not> typeofString (pattern ''infoUrl'')
        then False
      else if \<not> truthy (pattern ''info'') \<or> \<not> typeofString (pattern ''info'') then False
      else validatePatterns rest)"

definition validatePatternConfig :: "jsobject list \<Rightarrow> bool" where
  "validatePatternConfig patterns =
     (let names = map (\<lambda>p. p ''name'') patterns in
      if length (newSet names) \<noteq> length names then False
      else validatePatterns patterns)"

text \<open>
  The later revision of constants.js adds a \<open>languages\<close> property to every pattern and
  two checks for it at the end of the loop body.
\<close>

fun validateLanguages :: "jsval list \<Rightarrow> bool" where
  "validateLanguages [] = True"
| "validateLanguages (language # rest) =
     (if \<not> truthy language \<or> \<not> typeofString language then False
      else validateLanguages rest)"

fun validatePatternsLang :: "jsobject list \<Rightarrow> bool" where
  "validatePatternsLang [] = True"
| "validatePatternsLang (pattern # rest) =
     (if \<not> truthy (pattern ''name'') \<or> \<not> typeofString (pattern ''name'') then False
      else if \<not> truthy (pattern ''className'') \<or> \<not> typeofString (pattern ''className'')
        then False
      else if \<not> isArray (pattern ''detectionFunctions'')
          \<or> length (arrayElements (pattern ''detectionFunctions'')) \<le> 0
        then False
      else if \<not> validateDetectionFuncs (arrayElements (pattern ''detectionFunctions''))
        then False
      else if \<not> truthy (pattern ''infoUrl'') \<or> \<not> typeofString (pattern ''infoUrl'')
        then False
      else if \<not> truthy (pattern ''info'') \<or> \<not> typeofString (pattern ''info'') then False
      else if \<not> isArray (pattern ''languages'')
          \<or> length (arrayElements (pattern ''languages'')) \<le> 0
        then False
      else if \<not> validateLanguages (arrayElements (pattern ''languages'')) then False
      else validatePatternsLang rest)"

definition validatePatternConfigLang :: "jsobject list \<Rightarrow> bool" where
  "validatePatternConfigLang patterns =
     (let names = map (\<lambda>p. p ''name'') patterns in
      if length (newSet names) \<noteq> length names then False
      else validatePatternsLang patterns)"

text \<open>
  \<open>initPatternHighlighter\<close> (content script): what it does with the activation state
  of the tab and \<open>patternConfigIsValid\<close>. Only \<open>Started\<close> runs the pattern highlighting
  and installs the message listener.
\<close>

datatype initOutcome = ExtensionDisabled | InvalidConfig | Started

definition initPatternHighlighter :: "bool \<Rightarrow> bool \<Rightarrow> initOutcome" where
  "initPatternHighlighter isEnabled patternConfigIsValid =
     (if isEnabled then
        (if \<not> patternConfigIsValid then InvalidConfig else Started)
      else ExtensionDisabled)"

section \<open>Pattern evaluation on one node (content script)\<close>

text \<open>
  The engine runs only on a validated configuration, whose patterns have the type the
  source declares for them: strings, and a list of two-parameter functions.
\<close>

record pattern =
  name :: jsstring
  className :: jsstring
  detectionFunctions :: "detector list"
  infoUrl :: jsstring
  info :: jsstring

text \<open>
  The inner loop of \<open>findPatterInNode\<close>: \<open>Inr True\<close> when a detection function
  returned a truthy value, \<open>Inr False\<close> when the loop ran to its end, and the exception
  of a detection function that throws: nothing catches it.
\<close>

fun runDetectionFunctions :: "detector list \<Rightarrow> node \<Rightarrow> node option \<Rightarrow> exn + bool" where
  "runDetectionFunctions [] node nodeOld = Inr False"
| "runDetectionFunctions (func # rest) node nodeOld =
     (case func node nodeOld of
        Inl e \<Rightarrow> Inl e
      | Inr v \<Rightarrow> if truthy v then Inr True else runDetectionFunctions rest node nodeOld)"

text \<open>\<open>None\<close> is the \<open>null\<close> that the function returns when no pattern was detected.\<close>

fun findPatterInNode :: "pattern list \<Rightarrow> node \<Rightarrow> node option \<Rightarrow> exn + jsstring option" where
  "findPatterInNode [] node nodeOld = Inr None"
| "findPatterInNode (p # rest) node nodeOld =
     (case runDetectionFunctions (detectionFunctions p) node nodeOld of
        Inl e \<Rightarrow> Inl e
      | Inr True \<Rightarrow> Inr (Some (className p))
      | Inr False \<Rightarrow> findPatterInNode rest node nodeOld)"



text \<open>
  A pattern matches a node pair when one of its detection functions returns a truthy
  value on it.
\<close>

definition patternMatches :: "node \<Rightarrow> node option \<Rightarrow> pattern \<Rightarrow> bool" where
  "patternMatches node nodeOld p =
     list_ex (\<lambda>func. case func node nodeOld of Inl e \<Rightarrow> False | Inr v \<Rightarrow> truthy v)
       (detectionFunctions p)"



definition alwaysDetector :: detector where
  "alwaysDetector node nodeOld = Inr (Bool True)"





definition exampleObject :: "string \<Rightarrow> string \<Rightarrow> jsobject" where
  "exampleObject n c =
     obj [(''name'', Str (str n)), (''className'', Str (str c)),
          (''detectionFunctions'', Arr [Fun 2 alwaysDetector]),
          (''infoUrl'', Str (str ''url'')), (''info'', Str (str ''info''))]"




section \<open>Regular expressions\<close>

text \<open>
  The rules of the configuration are regular expressions with the flag \<open>i\<close>, built from
  character classes, sequence, alternation and greedy bounded or unbounded repetition;
  none has a group that is referred to, an anchor or a lookahead. \<open>Rep lo hi r\<close> is
  \<open>r{lo,hi}\<close> and \<open>RepInf lo r\<close> is \<open>r{lo,}\<close>.
\<close>

datatype charClass = Digit | Space | Letter | Dot | Lit nat

datatype regex =
    Eps
  | Chr charClass
  | Seq regex regex
  | Alt regex regex
  | Rep nat nat regex
  | RepInf nat regex

text \<open>
  \<open>Canonicalize\<close> of the language specification for a pattern with the flag \<open>i\<close> and
  without the flag \<open>u\<close>: the upper-case form of the code unit, as long as it is a single
  unit and does not turn a unit from 128 on into an ASCII one. It is written out for the
  units up to \<open>0xFF\<close>, which hold every letter of the rules. The units above have
  canonical forms of their own, none of which is the canonical form of a character that
  occurs in the rules; they are left as they are, which does not change what matches.
\<close>

definition canonicalize :: "nat \<Rightarrow> nat" where
  "canonicalize c =
     (if 97 \<le> c \<and> c \<le> 122 then c - 32
      else if 224 \<le> c \<and> c \<le> 254 \<and> c \<noteq> 247 then c - 32
      else if c = 181 then 924
      else if c = 255 then 376
      else c)"

text \<open>\<open>\s\<close>: the white space and the line terminators of the language.\<close>

definition isWhiteSpace :: "nat \<Rightarrow> bool" where
  "isWhiteSpace c =
     (c \<in> set [9, 10, 11, 12, 13, 32, 160, 5760, 8232, 8233, 8239, 8287, 12288, 65279]
      \<or> (8192 \<le> c \<and> c \<le> 8202))"

text \<open>
  \<open>Digit\<close> is \<open>\d\<close>, \<open>Space\<close> is \<open>\s\<close>, \<open>Letter\<close> is \<open>[a-zA-Z]\<close>, \<open>Dot\<close> is \<open>.\<close>
  (anything but a line terminator) and \<open>Lit l\<close> is the character \<open>l\<close>, matched without
  regard to case.
\<close>

fun inClass :: "charClass \<Rightarrow> nat \<Rightarrow> bool" where
  "inClass Digit c = (48 \<le> c \<and> c \<le> 57)"
| "inClass Space c = isWhiteSpace c"
| "inClass Letter c = ((65 \<le> c \<and> c \<le> 90) \<or> (97 \<le> c \<and> c \<le> 122))"
| "inClass Dot c = (c \<notin> set [10, 13, 8232, 8233])"
| "inClass (Lit l) c = (canonicalize c = canonicalize l)"

text \<open>
  The backtracking matcher. \<open>matches r s\<close> lists what is left of \<open>s\<close> after each way
  of matching \<open>r\<close> at the start of \<open>s\<close>, in the order in which the matcher of the
  language tries them: the first alternative before the second, one more repetition
  before stopping. The head of the list is the match that \<open>exec\<close> reports.

  \<open>rep m lo hi\<close> repeats the matcher \<open>m\<close> at least \<open>lo\<close> and at most \<open>hi\<close> times; once
  the minimum is reached, a repetition that consumes nothing is not considered (the
  empty check of \<open>RepeatMatcher\<close>). So an unbounded repetition on \<open>s\<close> makes at most
  \<open>lo + length s\<close> repetitions.
\<close>

fun rep :: "(jsstring \<Rightarrow> jsstring list) \<Rightarrow> nat \<Rightarrow> nat \<Rightarrow> jsstring \<Rightarrow> jsstring list" where
  "rep m lo 0 s = (if lo = 0 then [s] else [])"
| "rep m lo (Suc k) s =
     concat (map (rep m (lo - 1) k)
       (if lo = 0 then filter (\<lambda>t. length t < length s) (m s) else m s))
     @ (if lo = 0 then [s] else [])"

fun matches :: "regex \<Rightarrow> jsstring \<Rightarrow> jsstring list" where
  "matches Eps s = [s]"
| "matches (Chr c) s = (case s of [] \<Rightarrow> [] | x # xs \<Rightarrow> if inClass c x then [xs] else [])"
| "matches (Seq a b) s = concat (map (matches b) (matches a s))"
| "matches (Alt a b) s = matches a s @ matches b s"
| "matches (Rep lo hi r) s = rep (matches r) lo hi s"
| "matches (RepInf lo r) s = rep (matches r) lo (lo + length s) s"

text \<open>Notation of the patterns: a literal word, a sequence, an alternation, \<open>?\<close>, \<open>*\<close>, \<open>+\<close>.\<close>

definition rxLit :: "jsstring \<Rightarrow> regex" where
  "rxLit s = foldr (\<lambda>c r. Seq (Chr (Lit c)) r) s Eps"

definition rxSeq :: "regex list \<Rightarrow> regex" where
  "rxSeq rs = foldr Seq rs Eps"

fun rxAlt :: "regex list \<Rightarrow> regex" where
  "rxAlt [] = Eps"
| "rxAlt [r] = r"
| "rxAlt (r # rs) = Alt r (rxAlt rs)"

definition rxOpt :: "regex \<Rightarrow> regex" where
  "rxOpt r = Rep 0 1 r"

definition rxStar :: "regex \<Rightarrow> regex" where
  "rxStar r = RepInf 0 r"

definition rxPlus :: "regex \<Rightarrow> regex" where
  "rxPlus r = RepInf 1 r"

text \<open>\<open>word w e\<close> is the word \<open>w\<close> with the optional ending \<open>e\<close>, as in \<open>tage?\<close>.\<close>

definition word :: "string \<Rightarrow> string \<Rightarrow> regex" where
  "word w e = Seq (rxLit (str w)) (rxOpt (rxLit (str e)))"

text \<open>
  \<open>RegExp.prototype.test\<close> of a pattern without the flag \<open>g\<close>: is there a match at some
  position, tried from left to right.
\<close>

fun regexTest :: "regex \<Rightarrow> jsstring \<Rightarrow> bool" where
  "regexTest r [] = (matches r [] \<noteq> [])"
| "regexTest r (x # xs) = (if matches r (x # xs) \<noteq> [] then True else regexTest r xs)"

text \<open>
  \<open>String.prototype.match\<close> with a pattern with the flag \<open>g\<close>: the matched texts from
  left to right, each search starting where the last match ended (one unit further
  after an empty match), and \<open>null\<close> when there is none. \<open>skip\<close> counts the units
  that the last match still covers.
\<close>

fun scanMatches :: "regex \<Rightarrow> nat \<Rightarrow> jsstring \<Rightarrow> jsstring list" where
  "scanMatches r skip [] = (if skip = 0 \<and> matches r [] \<noteq> [] then [[]] else [])"
| "scanMatches r skip (x # xs) =
     (if skip > 0 then scanMatches r (skip - 1) xs
      else case matches r (x # xs) of
          [] \<Rightarrow> scanMatches r 0 xs
        | u # us \<Rightarrow>
            take (length (x # xs) - length u) (x # xs)
              # scanMatches r (length (x # xs) - length u - 1) xs)"

definition stringMatch :: "regex \<Rightarrow> jsstring \<Rightarrow> jsstring list option" where
  "stringMatch r s = (case scanMatches r 0 s of [] \<Rightarrow> None | m # ms \<Rightarrow> Some (m # ms))"

text \<open>\<open>s.replace(r, "")\<close> with a pattern with the flag \<open>g\<close>: every match is cut out.\<close>

fun replaceWithEmpty :: "regex \<Rightarrow> nat \<Rightarrow> jsstring \<Rightarrow> jsstring" where
  "replaceWithEmpty r skip [] = []"
| "replaceWithEmpty r skip (x # xs) =
     (if skip > 0 then replaceWithEmpty r (skip - 1) xs
      else case matches r (x # xs) of
          [] \<Rightarrow> x # replaceWithEmpty r 0 xs
        | u # us \<Rightarrow>
            if length (x # xs) - length u = 0 then x # replaceWithEmpty r 0 xs
            else replaceWithEmpty r (length (x # xs) - length u - 1) xs)"

text \<open>
  \<open>parseInt\<close> on a text of decimal digits, which is all it is applied to: the texts
  are matches of \<open>\d+\<close>.
\<close>

definition parseInt :: "jsstring \<Rightarrow> nat" where
  "parseInt s = foldl (\<lambda>n d. 10 * n + (d - 48)) 0 s"

section \<open>The detection functions (constants.js)\<close>

subsection \<open>Countdown\<close>

text \<open>
  The three countdown detection functions (German and English in the first revision of
  the configuration, both languages at once in the later one) have the same body and
  differ in the unit words and the conjunction of their two patterns only.
  \<open>colonGroup\<close> is \<open>\d{1,2}\s*:\s*\<close>; \<open>unitGroup\<close> is
  \<open>\d{1,2}\s*(?:words|[a-zA-Z]{1,3}\.?)(?:\s*und)?\s*\<close>.
\<close>

definition colonGroup :: regex where
  "colonGroup =
     rxSeq [Rep 1 2 (Chr Digit), rxStar (Chr Space), rxLit (str '':''), rxStar (Chr Space)]"

definition unitGroup :: "regex list \<Rightarrow> string \<Rightarrow> regex" where
  "unitGroup words andWord =
     rxSeq [Rep 1 2 (Chr Digit), rxStar (Chr Space),
            rxAlt (words @ [Seq (Rep 1 3 (Chr Letter)) (rxOpt (rxLit (str ''.'')))]),
            rxOpt (Seq (rxStar (Chr Space)) (rxLit (str andWord))),
            rxStar (Chr Space)]"

definition countdownReg :: "regex list \<Rightarrow> string \<Rightarrow> regex" where
  "countdownReg words andWord =
     Alt (Seq (Rep 1 3 colonGroup) (Rep 1 2 (Chr Digit))) (Rep 2 4 (unitGroup words andWord))"

definition countdownRegBad :: "regex list \<Rightarrow> string \<Rightarrow> regex" where
  "countdownRegBad words andWord =
     Alt (Seq (RepInf 4 colonGroup) (Rep 1 2 (Chr Digit))) (RepInf 5 (unitGroup words andWord))"

definition wordsDE :: "regex list" where
  "wordsDE = [word ''tag'' ''e'', word ''stunde'' ''n'', word ''minute'' ''n'',
              word ''sekunde'' ''n'']"

definition wordsEN :: "regex list" where
  "wordsEN = [word ''day'' ''s'', word ''hour'' ''s'', word ''minute'' ''s'',
              word ''second'' ''s'']"

definition digits :: regex where
  "digits = rxPlus (Chr Digit)"

text \<open>
  The loop over the pairs of numbers of one pair of matches: \<open>True\<close> is the
  \<open>return true\<close>, \<open>False\<close> is the \<open>break\<close> and the end of the loop. The two lists have
  the same length where it is called.
\<close>

fun numbersDecrease :: "jsstring list \<Rightarrow> jsstring list \<Rightarrow> bool" where
  "numbersDecrease (numberNew # restNew) (numberOld # restOld) =
     (if parseInt numberNew > parseInt numberOld then False
      else if parseInt numberNew < parseInt numberOld then True
      else numbersDecrease restNew restOld)"
| "numbersDecrease numbersNew numbersOld = False"

text \<open>
  The loop over the pairs of matches. \<open>match\<close> returns \<open>null\<close> for a text without a
  digit, and reading \<open>length\<close> of \<open>null\<close> is a TypeError.
\<close>

fun countdownPairs :: "jsstring list \<Rightarrow> jsstring list \<Rightarrow> exn + jsval" where
  "countdownPairs (matchNew # restNew) (matchOld # restOld) =
     (case stringMatch digits matchNew of
        None \<Rightarrow> Inl TypeError
      | Some numbersNew \<Rightarrow>
         (case stringMatch digits matchOld of
            None \<Rightarrow> Inl TypeError
          | Some numbersOld \<Rightarrow>
              if length numbersNew \<noteq> length numbersOld then countdownPairs restNew restOld
              else if numbersDecrease numbersNew numbersOld then Inr (Bool True)
              else countdownPairs restNew restOld))"
| "countdownPairs matchesNew matchesOld = Inr (Bool False)"

text \<open>
  The body of the countdown detection functions. The guard compares the two
  \<open>innerText\<close> values as they are, \<open>undefined\<close> included. Behind the guard
  \<open>nodeOld.innerText.replace\<close> comes first and then \<open>node.innerText.replace\<close>: a
  TypeError when the value is \<open>undefined\<close>.
\<close>

definition countdownDetection :: "regex \<Rightarrow> regex \<Rightarrow> detector" where
  "countdownDetection reg regBad node nodeOld =
     (case nodeOld of
        None \<Rightarrow> Inr (Bool False)
      | Some old \<Rightarrow>
          if innerText node \<noteq> innerText old then
            (case innerText old of
               None \<Rightarrow> Inl TypeError
             | Some textOld \<Rightarrow>
                (case innerText node of
                   None \<Rightarrow> Inl TypeError
                 | Some textNew \<Rightarrow>
                    (let matchesOld = stringMatch reg (replaceWithEmpty regBad 0 textOld);
                         matchesNew = stringMatch reg (replaceWithEmpty regBad 0 textNew)
                     in case matchesNew of
                          None \<Rightarrow> Inr (Bool False)
                        | Some mNew \<Rightarrow>
                           (case matchesOld of
                              None \<Rightarrow> Inr (Bool False)
                            | Some mOld \<Rightarrow>
                                if length mNew \<noteq> length mOld then Inr (Bool False)
                                else countdownPairs mNew mOld))))
          else Inr (Bool False))"

definition countdownDE :: detector where
  "countdownDE = countdownDetection (countdownReg wordsDE ''und'') (countdownRegBad wordsDE ''und'')"

definition countdownEN :: detector where
  "countdownEN = countdownDetection (countdownReg wordsEN ''and'') (countdownRegBad wordsEN ''and'')"

text \<open>The countdown of the later revision: the words of both languages, \<open>und\<close>.\<close>

definition countdownBoth :: detector where
  "countdownBoth =
     countdownDetection (countdownReg (wordsEN @ wordsDE) ''und'')
       (countdownRegBad (wordsEN @ wordsDE) ''und'')"

subsection \<open>Scarcity\<close>

text \<open>
  The patterns are quoted with their letters outside ASCII written as escapes
  (\<open>\xFC\<close> is u-umlaut, \<open>\xF6\<close> o-umlaut, \<open>\xDF\<close> sharp s, \<open>\u20AC\<close> the euro sign,
  \<open>\xA3\<close> the pound sign).

  \<open>/\d+\s*(?:\%|st\xFCck|stk|stk\.)?\s*(?:verf\xFCgbar|verkauft|eingel\xF6st)|letzter\s*Artikel/i\<close>
\<close>

definition scarcityRegex :: regex where
  "scarcityRegex =
     Alt (rxSeq [rxPlus (Chr Digit), rxStar (Chr Space),
                 rxOpt (rxAlt [rxLit (str ''%''), rxLit (str ''st'' @ [252] @ str ''ck''),
                               rxLit (str ''stk''), rxLit (str ''stk.'')]),
                 rxStar (Chr Space),
                 rxAlt [rxLit (str ''verf'' @ [252] @ str ''gbar''), rxLit (str ''verkauft''),
                        rxLit (str ''eingel'' @ [246] @ str ''st'')]])
         (rxSeq [rxLit (str ''letzter''), rxStar (Chr Space), rxLit (str ''Artikel'')])"

definition scarcity :: detector where
  "scarcity node nodeOld = Inr (Bool (regexTest scarcityRegex (toString (innerText node))))"

text \<open>
  \<open>/\d+\s*(?:\%|pieces?|pcs\.?|pc\.?|ct\.?|items?)?\s*(?:available|sold|claimed|redeemed)|(?:last|final)\s*(?:article|item)/i\<close>
\<close>

definition scarcityRegexEN :: regex where
  "scarcityRegexEN =
     Alt (rxSeq [rxPlus (Chr Digit), rxStar (Chr Space),
                 rxOpt (rxAlt [rxLit (str ''%''), word ''piece'' ''s'', word ''pcs'' ''.'',
                               word ''pc'' ''.'', word ''ct'' ''.'', word ''item'' ''s'']),
                 rxStar (Chr Space),
                 rxAlt [rxLit (str ''available''), rxLit (str ''sold''),
                        rxLit (str ''claimed''), rxLit (str ''redeemed'')]])
         (rxSeq [rxAlt [rxLit (str ''last''), rxLit (str ''final'')], rxStar (Chr Space),
                 rxAlt [rxLit (str ''article''), rxLit (str ''item'')]])"

definition scarcityEN :: detector where
  "scarcityEN node nodeOld = Inr (Bool (regexTest scarcityRegexEN (toString (innerText node))))"

subsection \<open>Social proof\<close>

text \<open>
  \<open>/\d+\s*(?:andere)?\s*(?:Kunden|Personen)\s*(?:kauften|bewerteten|haben\s*(?:diese(?:n|s)|den|folgende(?:n|s))\s*(?:Produkt|Artikel)\s*mit\s*.{1,20}\s*bewertet)/i\<close>
\<close>

definition socialProofRegex :: regex where
  "socialProofRegex =
     rxSeq [rxPlus (Chr Digit), rxStar (Chr Space), rxOpt (rxLit (str ''andere'')),
            rxStar (Chr Space), rxAlt [rxLit (str ''Kunden''), rxLit (str ''Personen'')],
            rxStar (Chr Space),
            rxAlt [rxLit (str ''kauften''), rxLit (str ''bewerteten''),
                   rxSeq [rxLit (str ''haben''), rxStar (Chr Space),
                          rxAlt [Seq (rxLit (str ''diese''))
                                     (rxAlt [rxLit (str ''n''), rxLit (str ''s'')]),
                                 rxLit (str ''den''),
                                 Seq (rxLit (str ''folgende''))
                                     (rxAlt [rxLit (str ''n''), rxLit (str ''s'')])],
                          rxStar (Chr Space),
                          rxAlt [rxLit (str ''Produkt''), rxLit (str ''Artikel'')],
                          rxStar (Chr Space), rxLit (str ''mit''), rxStar (Chr Space),
                          Rep 1 20 (Chr Dot), rxStar (Chr Space), rxLit (str ''bewertet'')]]]"

definition socialProof :: detector where
  "socialProof node nodeOld = Inr (Bool (regexTest socialProofRegex (toString (innerText node))))"

text \<open>
  \<open>/\d+\s*(?:other)?\s*(?:customers?|clients?|buyers?|users?|shoppers?|people)\s*(?:have\s+)?\s*(?:(?:also\s*)?(?:bought|purchased|ordered)|(?:rated|reviewed))\s*(?:this|the\s*following)\s*(?:product|article|item)s?/i\<close>
\<close>

definition socialProofRegexEN :: regex where
  "socialProofRegexEN =
     rxSeq [rxPlus (Chr Digit), rxStar (Chr Space), rxOpt (rxLit (str ''other'')),
            rxStar (Chr Space),
            rxAlt [word ''customer'' ''s'', word ''client'' ''s'', word ''buyer'' ''s'',
                   word ''user'' ''s'', word ''shopper'' ''s'', rxLit (str ''people'')],
            rxStar (Chr Space),
            rxOpt (Seq (rxLit (str ''have'')) (rxPlus (Chr Space))),
            rxStar (Chr Space),
            rxAlt [Seq (rxOpt (Seq (rxLit (str ''also'')) (rxStar (Chr Space))))
                       (rxAlt [rxLit (str ''bought''), rxLit (str ''purchased''),
                               rxLit (str ''ordered'')]),
                   rxAlt [rxLit (str ''rated''), rxLit (str ''reviewed'')]],
            rxStar (Chr Space),
            rxAlt [rxLit (str ''this''),
                   rxSeq [rxLit (str ''the''), rxStar (Chr Space), rxLit (str ''following'')]],
            rxStar (Chr Space),
            rxAlt [rxLit (str ''product''), rxLit (str ''article''), rxLit (str ''item'')],
            rxOpt (rxLit (str ''s''))]"

definition socialProofEN :: detector where
  "socialProofEN node nodeOld = Inr (Bool (regexTest socialProofRegexEN (toString (innerText node))))"

subsection \<open>Forced continuity\<close>

text \<open>
  \<open>amountDE\<close> is \<open>\d+(?:,\d{2})?\s*(?:Euro|\u20AC)\<close>. The pattern is

  \<open>/amount\s*ab\s*(?:dem)?\s*\d+\.\s*Monat|(?:anschlie\xDFend|danach)\s*amount\s*(?:pro|\/)\s*Monat|ab(?:\s*dem)?\s*\d+\.\s*Monat(?:\s*nur)?\s*amount/i\<close>
\<close>

definition amountDE :: regex where
  "amountDE =
     rxSeq [rxPlus (Chr Digit), rxOpt (Seq (rxLit (str '','')) (Rep 2 2 (Chr Digit))),
            rxStar (Chr Space), rxAlt [rxLit (str ''Euro''), rxLit [8364]]]"

definition forcedContinuityRegex :: regex where
  "forcedContinuityRegex =
     rxAlt [rxSeq [amountDE, rxStar (Chr Space), rxLit (str ''ab''), rxStar (Chr Space),
                   rxOpt (rxLit (str ''dem'')), rxStar (Chr Space), rxPlus (Chr Digit),
                   rxLit (str ''.''), rxStar (Chr Space), rxLit (str ''Monat'')],
            rxSeq [rxAlt [rxLit (str ''anschlie'' @ [223] @ str ''end''), rxLit (str ''danach'')],
                   rxStar (Chr Space), amountDE, rxStar (Chr Space),
                   rxAlt [rxLit (str ''pro''), rxLit (str ''/'')], rxStar (Chr Space),
                   rxLit (str ''Monat'')],
            rxSeq [rxLit (str ''ab''), rxOpt (Seq (rxStar (Chr Space)) (rxLit (str ''dem''))),
                   rxStar (Chr Space), rxPlus (Chr Digit), rxLit (str ''.''),
                   rxStar (Chr Space), rxLit (str ''Monat''),
                   rxOpt (Seq (rxStar (Chr Space)) (rxLit (str ''nur''))),
                   rxStar (Chr Space), amountDE]]"

definition forcedContinuity :: detector where
  "forcedContinuity node nodeOld =
     Inr (Bool (regexTest forcedContinuityRegex (toString (innerText node))))"

text \<open>
  The English pattern. \<open>amountEN\<close> is

  \<open>(?:(?:\u20AC|EUR|GBP|\xA3|\$|USD)\s*\d+(?:\.\d{2})?|\d+(?:\.\d{2})?\s*(?:euros?|\u20AC|EUR|GBP|\xA3|pounds?(?:\s*sterling)?|\$|USD|dollars?))\<close>,

  \<open>ordinalEN\<close> is \<open>\d+(?:th|nd|rd|th)?\<close>, and the pattern is

  \<open>/amount\s*(?:(?:per|\/|p)\s*(?:month|m))?\s*after\s*(?:the)?\s*ordinalEN\s*months?|(?:after\s*that|then|afterwards|subsequently)\s*amount\s*(?:(?:(?:per|\/|a)\s*month)|(?:p|\/)m)|after\s*(?:the)?\s*ordinalEN\s*months?\s*(?:only|just)?\s*amount/i\<close>
\<close>

definition numberEN :: regex where
  "numberEN = Seq (rxPlus (Chr Digit)) (rxOpt (Seq (rxLit (str ''.'')) (Rep 2 2 (Chr Digit))))"

definition amountEN :: regex where
  "amountEN =
     Alt (rxSeq [rxAlt [rxLit [8364], rxLit (str ''EUR''), rxLit (str ''GBP''), rxLit [163],
                        rxLit (str ''$''), rxLit (str ''USD'')],
                 rxStar (Chr Space), numberEN])
         (rxSeq [numberEN, rxStar (Chr Space),
                 rxAlt [word ''euro'' ''s'', rxLit [8364], rxLit (str ''EUR''),
                        rxLit (str ''GBP''), rxLit [163],
                        Seq (word ''pound'' ''s'')
                            (rxOpt (Seq (rxStar (Chr Space)) (rxLit (str ''sterling'')))),
                        rxLit (str ''$''), rxLit (str ''USD''), word ''dollar'' ''s'']])"

definition ordinalEN :: regex where
  "ordinalEN =
     Seq (rxPlus (Chr Digit))
         (rxOpt (rxAlt [rxLit (str ''th''), rxLit (str ''nd''), rxLit (str ''rd''),
                        rxLit (str ''th'')]))"

definition forcedContinuityRegexEN :: regex where
  "forcedContinuityRegexEN =
     rxAlt [rxSeq [amountEN, rxStar (Chr Space),
                   rxOpt (rxSeq [rxAlt [rxLit (str ''per''), rxLit (str ''/''), rxLit (str ''p'')],
                                 rxStar (Chr Space),
                                 rxAlt [rxLit (str ''month''), rxLit (str ''m'')]]),
                   rxStar (Chr Space), rxLit (str ''after''), rxStar (Chr Space),
                   rxOpt (rxLit (str ''the'')), rxStar (Chr Space), ordinalEN, rxStar (Chr Space),
                   word ''month'' ''s''],
            rxSeq [rxAlt [rxSeq [rxLit (str ''after''), rxStar (Chr Space), rxLit (str ''that'')],
                          rxLit (str ''then''), rxLit (str ''afterwards''),
                          rxLit (str ''subsequently'')],
                   rxStar (Chr Space), amountEN, rxStar (Chr Space),
                   rxAlt [rxSeq [rxAlt [rxLit (str ''per''), rxLit (str ''/''), rxLit (str ''a'')],
                                 rxStar (Chr Space), rxLit (str ''month'')],
                          Seq (rxAlt [rxLit (str ''p''), rxLit (str ''/'')]) (rxLit (str ''m''))]],
            rxSeq [rxLit (str ''after''), rxStar (Chr Space), rxOpt (rxLit (str ''the'')),
                   rxStar (Chr Space), ordinalEN, rxStar (Chr Space), word ''month'' ''s'',
                   rxStar (Chr Space),
                   rxOpt (rxAlt [rxLit (str ''only''), rxLit (str ''just'')]),
                   rxStar (Chr Space), amountEN]]"

definition forcedContinuityEN :: detector where
  "forcedContinuityEN node nodeOld =
     Inr (Bool (regexTest forcedContinuityRegexEN (toString (innerText node))))"

subsection \<open>The configured patterns\<close>

text \<open>
  \<open>patternConfig.patterns\<close> of the first revision of constants.js, in its order. The
  names and texts of the German patterns come from \<open>i18n.getMessage\<close>, whose message
  files are not part of the sources: \<open>getMessage\<close> is a parameter.
\<close>

definition patternConfig :: "(string \<Rightarrow> jsstring) \<Rightarrow> pattern list" where
  "patternConfig getMessage =
     [\<lparr>name = getMessage ''patternCountdownDE_name'', className = str ''countdown-de'',
       detectionFunctions = [countdownDE],
       infoUrl = getMessage ''patternCountdownDE_infoUrl'',
       info = getMessage ''patternCountdownDE_info''\<rparr>,
      \<lparr>name = getMessage ''patternScarcityDE_name'', className = str ''scarcity'',
       detectionFunctions = [scarcity],
       infoUrl = getMessage ''patternScarcityDE_infoUrl'',
       info = getMessage ''patternScarcityDE_info''\<rparr>,
      \<lparr>name = getMessage ''patternSocialProofDE_name'', className = str ''social-proof'',
       detectionFunctions = [socialProof],
       infoUrl = getMessage ''patternSocialProofDE_infoUrl'',
       info = getMessage ''patternSocialProofDE_info''\<rparr>,
      \<lparr>name = getMessage ''patternForcedContinuityDE_name'',
       className = str ''forced-continuity'',
       detectionFunctions = [forcedContinuity],
       infoUrl = getMessage ''patternForcedContinuityDE_infoUrl'',
       info = getMessage ''patternForcedContinuityDE_info''\<rparr>,
      \<lparr>name = str ''countdown-en'', className = str ''countdown-en'',
       detectionFunctions = [countdownEN],
       infoUrl = getMessage ''patternCountdownDE_infoUrl'',
       info = getMessage ''patternCountdownDE_info''\<rparr>,
      \<lparr>name = str ''scarcity-en'', className = str ''scarcity-en'',
       detectionFunctions = [scarcityEN],
       infoUrl = getMessage ''patternScarcityDE_infoUrl'',
       info = getMessage ''patternScarcityDE_info''\<rparr>,
      \<lparr>name = str ''social-proof-en'', className = str ''social-proof-en'',
       detectionFunctions = [socialProofEN],
       infoUrl = getMessage ''patternSocialProofDE_infoUrl'',
       info = getMessage ''patternSocialProofDE_info''\<rparr>,
      \<lparr>name = str ''forced-continuity-en'', className = str ''forced-continuity-en'',
       detectionFunctions = [forcedContinuityEN],
       infoUrl = getMessage ''patternForcedContinuityDE_infoUrl'',
       info = getMessage ''patternForcedContinuityDE_info''\<rparr>]"

text \<open>A stand-in for the message files in examples: the key is the message.\<close>

definition messageKeys :: "string \<Rightarrow> jsstring" where
  "messageKeys key = str key"

section \<open>Looking up and changing elements of a tree\<close>

text \<open>
  \<open>elements\<close> lists a node and the elements below it in document order, and
  \<open>elementsList\<close> those of a list of siblings; \<open>querySelectorAll("*")\<close> on an element
  returns the elements below it.
\<close>

primrec elements :: "node \<Rightarrow> element list"
  and elementsList :: "node list \<Rightarrow> element list" where
  "elements (Element a cs) = a # elementsList cs"
| "elements (Text s) = []"
| "elementsList [] = []"
| "elementsList (n # ns) = elements n @ elementsList ns"

fun descendants :: "node \<Rightarrow> element list" where
  "descendants (Element a cs) = elementsList cs"
| "descendants (Text s) = []"

fun isText :: "node \<Rightarrow> bool" where
  "isText (Text s) = True"
| "isText (Element a cs) = False"

text \<open>
  An element that a lookup has found is given by its place in the tree: the path of
  child indexes that leads to it from the children of the root. \<open>firstPath\<close> is the
  place of the first element, in document order, that satisfies \<open>P\<close>: what
  \<open>querySelector\<close> returns for a selector that tests single elements so.
\<close>

fun shiftPath :: "nat list \<Rightarrow> nat list" where
  "shiftPath [] = []"
| "shiftPath (i # p) = Suc i # p"

primrec firstPath :: "(element \<Rightarrow> bool) \<Rightarrow> node \<Rightarrow> nat list option"
  and firstPathList :: "(element \<Rightarrow> bool) \<Rightarrow> node list \<Rightarrow> nat list option" where
  "firstPath P (Element a cs) = (if P a then Some [] else firstPathList P cs)"
| "firstPath P (Text s) = None"
| "firstPathList P [] = None"
| "firstPathList P (n # ns) =
     (case firstPath P n of
        Some p \<Rightarrow> Some (0 # p)
      | None \<Rightarrow> map_option shiftPath (firstPathList P ns))"

text \<open>The node at a place among a list of siblings, \<open>None\<close> when there is none.\<close>

fun nodeAt :: "nat list \<Rightarrow> node list \<Rightarrow> node option" where
  "nodeAt [] ns = None"
| "nodeAt (i # p) ns =
     (if i < length ns then
        (if p = [] then Some (ns ! i)
         else case ns ! i of Element a cs \<Rightarrow> nodeAt p cs | Text s \<Rightarrow> None)
      else None)"

text \<open>
  A change of the node at a place: \<open>f\<close> gives what stands there afterwards, the empty
  list for \<open>remove()\<close>, the changed node otherwise. A place that is not in the tree
  changes nothing.
\<close>

fun changeAt :: "(node \<Rightarrow> node list) \<Rightarrow> nat list \<Rightarrow> node list \<Rightarrow> node list" where
  "changeAt f [] ns = ns"
| "changeAt f (i # p) ns =
     (if i < length ns then
        (if p = [] then take i ns @ f (ns ! i) @ drop (Suc i) ns
         else case ns ! i of
             Element a cs \<Rightarrow> take i ns @ Element a (changeAt f p cs) # drop (Suc i) ns
           | Text s \<Rightarrow> ns)
      else ns)"

text \<open>The same for places below a root.\<close>

fun elementAt :: "nat list \<Rightarrow> node \<Rightarrow> node option" where
  "elementAt p (Element a cs) =
     (case nodeAt p cs of
        Some (Element x xs) \<Rightarrow> Some (Element x xs)
      | Some (Text s) \<Rightarrow> None
      | None \<Rightarrow> None)"
| "elementAt p (Text s) = None"

fun changeBelow :: "(node \<Rightarrow> node list) \<Rightarrow> nat list \<Rightarrow> node \<Rightarrow> node" where
  "changeBelow f p (Element a cs) = Element a (changeAt f p cs)"
| "changeBelow f p (Text s) = Text s"

fun withClassList :: "jsstring list \<Rightarrow> node \<Rightarrow> node" where
  "withClassList cl (Element a cs) = Element (a\<lparr>classList := cl\<rparr>) cs"
| "withClassList cl (Text s) = Text s"

section \<open>The classification pass (content script)\<close>

definition extensionClassPrefix :: jsstring where
  "extensionClassPrefix = str ''__ph__''"

definition patternDetectedClassName :: jsstring where
  "patternDetectedClassName = extensionClassPrefix @ str ''pattern-detected''"

text \<open>
  \<open>getElementByPhid(dom, id)\<close> is \<open>dom.querySelector('[data-phid="' + id + '"]')\<close>. The
  identifier is \<open>node.dataset.phid\<close>, which is \<open>undefined\<close> for an element without the
  attribute and is then written into the selector as the text \<open>undefined\<close>.

  The selector is the test "the attribute \<open>data-phid\<close> equals the identifier" when the
  identifier is plain: it has no quotation mark, backslash, line break, form feed or
  null in it and no surrogate code unit. The identifiers that the extension assigns are
  decimal numbers. In the other identifiers the selector syntax reads escapes,
  replaces code units, or finds the end of the string before the end of the identifier,
  and the result is what the selector engine of the browser makes of the text. The
  engine is not part of the sources: \<open>otherSelectors\<close> is a parameter, which gives for
  a root and a selector text the exception that \<open>querySelector\<close> throws or the place of
  the element that it returns.

  A text node has no \<open>querySelector\<close>: the call on it is a TypeError.
\<close>

type_synonym selectorEngine = "node \<Rightarrow> jsstring \<Rightarrow> exn + nat list option"

definition phidText :: "jsstring option \<Rightarrow> jsstring" where
  "phidText ident = (case ident of None \<Rightarrow> str ''undefined'' | Some s \<Rightarrow> s)"

definition plainIdentifier :: "jsstring \<Rightarrow> bool" where
  "plainIdentifier s =
     list_all (\<lambda>c. c \<notin> set [0, 10, 12, 13, 34, 92] \<and> \<not> (55296 \<le> c \<and> c \<le> 57343)) s"

definition hasPhid :: "jsstring option \<Rightarrow> element \<Rightarrow> bool" where
  "hasPhid ident a = (phid a = Some (phidText ident))"

definition phidSelector :: "jsstring option \<Rightarrow> jsstring" where
  "phidSelector ident = str ''[data-phid='' @ [34] @ phidText ident @ [34] @ str '']''"

definition locateByPhid :: "selectorEngine \<Rightarrow> node \<Rightarrow> jsstring option \<Rightarrow> exn + nat list option" where
  "locateByPhid otherSelectors domTree ident =
     (case domTree of
        Text s \<Rightarrow> Inl TypeError
      | Element a cs \<Rightarrow>
          if plainIdentifier (phidText ident) then Inr (firstPathList (hasPhid ident) cs)
          else otherSelectors domTree (phidSelector ident))"

text \<open>The element that \<open>getElementByPhid\<close> returns: the element at the place found.\<close>

definition getElementByPhid :: "selectorEngine \<Rightarrow> node \<Rightarrow> jsstring option \<Rightarrow> exn + node option" where
  "getElementByPhid otherSelectors domTree ident =
     (case locateByPhid otherSelectors domTree ident of
        Inl e \<Rightarrow> Inl e
      | Inr None \<Rightarrow> Inr None
      | Inr (Some p) \<Rightarrow> Inr (elementAt p domTree))"

text \<open>
  A stand-in for the selector engine in examples whose identifiers are plain: it is
  never called there.
\<close>

definition noOtherSelectors :: selectorEngine where
  "noOtherSelectors domTree selector = Inl SyntaxError"

text \<open>
  \<open>classList.add(tokens)\<close> first goes through the tokens: a SyntaxError for an empty
  token, an InvalidCharacterError for a token with ASCII white space. Then the tokens
  that are not yet in the list are appended.
\<close>

definition asciiWhitespace :: "nat \<Rightarrow> bool" where
  "asciiWhitespace c = (c \<in> set [9, 10, 12, 13, 32])"

fun invalidToken :: "jsstring list \<Rightarrow> exn option" where
  "invalidToken [] = None"
| "invalidToken (t # ts) =
     (if t = [] then Some SyntaxError
      else if list_ex asciiWhitespace t then Some InvalidCharacterError
      else invalidToken ts)"

definition classListAdd :: "jsstring list \<Rightarrow> jsstring list \<Rightarrow> exn + jsstring list" where
  "classListAdd cl tokens =
     (case invalidToken tokens of
        Some e \<Rightarrow> Inl e
      | None \<Rightarrow> Inr (foldl (\<lambda>l t. if t \<in> set l then l else l @ [t]) cl tokens))"

text \<open>
  The part of \<open>findPatternDeep\<close> after the loop over the children, for the element
  with the attributes \<open>a\<close> and the children \<open>cs\<close> that the loop has left. \<open>domOld\<close> is the
  older snapshot and \<open>document\<close> the live document. The result is \<open>None\<close> when the node
  has been removed from its parent (\<open>node.remove()\<close>), and the node otherwise.

  \<open>if (foundPattern)\<close> is false for \<open>null\<close> and for an empty class name.
\<close>

definition tagElement :: "selectorEngine \<Rightarrow> node \<Rightarrow> jsstring option \<Rightarrow> jsstring \<Rightarrow> exn + node" where
  "tagElement otherSelectors document ident foundPattern =
     (case locateByPhid otherSelectors document ident of
        Inl e \<Rightarrow> Inl e
      | Inr None \<Rightarrow> Inr document
      | Inr (Some p) \<Rightarrow>
         (case elementAt p document of
            None \<Rightarrow> Inr document
          | Some (Text s) \<Rightarrow> Inr document
          | Some (Element elem cs) \<Rightarrow>
             (case classListAdd (classList elem)
                     [patternDetectedClassName, extensionClassPrefix @ foundPattern] of
                Inl e \<Rightarrow> Inl e
              | Inr cl \<Rightarrow> Inr (changeBelow (\<lambda>n. [withClassList cl n]) p document))))"

definition removeNodeOld :: "selectorEngine \<Rightarrow> node \<Rightarrow> jsstring option \<Rightarrow> node" where
  "removeNodeOld otherSelectors domOld ident =
     (case locateByPhid otherSelectors domOld ident of
        Inl e \<Rightarrow> domOld
      | Inr None \<Rightarrow> domOld
      | Inr (Some p) \<Rightarrow> changeBelow (\<lambda>n. []) p domOld)"

definition visitNode ::
  "selectorEngine \<Rightarrow> pattern list \<Rightarrow> element \<Rightarrow> node list \<Rightarrow> node \<Rightarrow> node
     \<Rightarrow> exn + node option \<times> node \<times> node" where
  "visitNode otherSelectors patterns a cs domOld document =
     (case getElementByPhid otherSelectors domOld (phid a) of
        Inl e \<Rightarrow> Inl e
      | Inr nodeOld \<Rightarrow>
         (case findPatterInNode patterns (Element a cs) nodeOld of
            Inl e \<Rightarrow> Inl e
          | Inr None \<Rightarrow> Inr (Some (Element a cs), domOld, document)
          | Inr (Some foundPattern) \<Rightarrow>
              if foundPattern = [] then Inr (Some (Element a cs), domOld, document)
              else
                (case tagElement otherSelectors document (phid a) foundPattern of
                   Inl e \<Rightarrow> Inl e
                 | Inr document' \<Rightarrow>
                     Inr (None,
                          (if nodeOld \<noteq> None then removeNodeOld otherSelectors domOld (phid a)
                           else domOld),
                          document'))))"

text \<open>
  \<open>findPatternDeep\<close> and its loop over \<open>node.children\<close>. The collection is live and
  the loop goes through it by index: when the call on a child has removed that child,
  the elements after it move up by one and the next index passes over the element that
  followed the removed one. \<open>skip\<close> says that the next element is passed over. Text
  nodes are not in \<open>children\<close>. A text node has no \<open>children\<close> to iterate: the call on
  it is a TypeError.
\<close>

primrec findPatternDeep ::
    "selectorEngine \<Rightarrow> pattern list \<Rightarrow> node \<Rightarrow> node \<Rightarrow> node \<Rightarrow> exn + node option \<times> node \<times> node"
  and findPatternDeepChildren ::
    "selectorEngine \<Rightarrow> pattern list \<Rightarrow> node list \<Rightarrow> bool \<Rightarrow> node \<Rightarrow> node
       \<Rightarrow> exn + node list \<times> node \<times> node" where
  "findPatternDeep q patterns (Element a cs) domOld document =
     (case findPatternDeepChildren q patterns cs False domOld document of
        Inl e \<Rightarrow> Inl e
      | Inr (cs', domOld', document') \<Rightarrow> visitNode q patterns a cs' domOld' document')"
| "findPatternDeep q patterns (Text s) domOld document = Inl TypeError"
| "findPatternDeepChildren q patterns [] skip domOld document = Inr ([], domOld, document)"
| "findPatternDeepChildren q patterns (child # rest) skip domOld document =
     (if isText child then
        (case findPatternDeepChildren q patterns rest skip domOld document of
           Inl e \<Rightarrow> Inl e
         | Inr (rest', domOld', document') \<Rightarrow> Inr (child # rest', domOld', document'))
      else if skip then
        (case findPatternDeepChildren q patterns rest False domOld document of
           Inl e \<Rightarrow> Inl e
         | Inr (rest', domOld', document') \<Rightarrow> Inr (child # rest', domOld', document'))
      else
        (case findPatternDeep q patterns child domOld document of
           Inl e \<Rightarrow> Inl e
         | Inr (None, domOld', document') \<Rightarrow>
             findPatternDeepChildren q patterns rest True domOld' document'
         | Inr (Some child', domOld', document') \<Rightarrow>
            (case findPatternDeepChildren q patterns rest False domOld' document' of
               Inl e \<Rightarrow> Inl e
             | Inr (rest', domOld'', document'') \<Rightarrow>
                 Inr (child' # rest', domOld'', document''))))"

text \<open>
  An element is tagged when it has the class of detected patterns. \<open>nestedTags\<close> says
  that some tagged element of a tree has a tagged element below it.
\<close>

definition tagged :: "element \<Rightarrow> bool" where
  "tagged a = (patternDetectedClassName \<in> set (classList a))"

primrec nestedTags :: "node \<Rightarrow> bool"
  and nestedTagsList :: "node list \<Rightarrow> bool" where
  "nestedTags (Element a cs) = ((tagged a \<and> list_ex tagged (elementsList cs)) \<or> nestedTagsList cs)"
| "nestedTags (Text s) = False"
| "nestedTagsList [] = False"
| "nestedTagsList (n # ns) = (nestedTags n \<or> nestedTagsList ns)"

text \<open>
  The keys under which the elements of a tree are looked up, in document order, and
  the identifiers of the tagged elements of the live document.
\<close>

definition phidKeys :: "element list \<Rightarrow> jsstring list" where
  "phidKeys es = map (\<lambda>a. phidText (phid a)) es"

definition taggedKeys :: "node \<Rightarrow> jsstring list" where
  "taggedKeys document =
     map (\<lambda>a. phidText (phid a))
       (filter (\<lambda>a. tagged a \<and> phid a \<noteq> None) (descendants document))"

text \<open>
  Example trees: an element with an identifier, no class and a layout box; the body,
  the root element and the document node of a page. The live document is given by its
  document node, a root whose own attributes play no part: \<open>querySelector\<close> and
  \<open>getElementsByClassName\<close> look below it.
\<close>

definition el :: "string \<Rightarrow> string \<Rightarrow> element" where
  "el t i =
     \<lparr>tagName = str t, html = True, phid = Some (str i), classList = [],
      visibility = str ''visible'', display = str ''block'', opacity = str ''1'',
      offsetWidth = 100, offsetHeight = 20, clientRects = 1\<rparr>"

definition bodyElement :: element where
  "bodyElement =
     \<lparr>tagName = str ''body'', html = True, phid = None, classList = [],
      visibility = str ''visible'', display = str ''block'', opacity = str ''1'',
      offsetWidth = 100, offsetHeight = 20, clientRects = 1\<rparr>"

definition htmlElement :: element where
  "htmlElement =
     \<lparr>tagName = str ''html'', html = True, phid = None, classList = [],
      visibility = str ''visible'', display = str ''block'', opacity = str ''1'',
      offsetWidth = 100, offsetHeight = 20, clientRects = 1\<rparr>"

definition documentNode :: element where
  "documentNode =
     \<lparr>tagName = str ''#document'', html = False, phid = None, classList = [],
      visibility = [], display = [], opacity = [],
      offsetWidth = 0, offsetHeight = 0, clientRects = 0\<rparr>"

definition documentOf :: "node \<Rightarrow> node" where
  "documentOf body = Element documentNode [Element htmlElement [body]]"

text \<open>
  A page with an offer: \<open><div>10 St\xFCck verf\xFCgbar <span>5 St\xFCck verkauft</span></div>\<close>
  in the body, unchanged between the two snapshots.
\<close>

definition offerChildren :: "node list" where
  "offerChildren =
     [Element (el ''div'' ''0'')
        [Text (str ''10 St'' @ [252] @ str ''ck verf'' @ [252] @ str ''gbar ''),
         Element (el ''span'' ''1'') [Text (str ''5 St'' @ [252] @ str ''ck verkauft'')]]]"

definition offerBody :: node where
  "offerBody = Element bodyElement offerChildren"

definition offerDocument :: node where
  "offerDocument = documentOf offerBody"



text \<open>
  The live document after a pass over a snapshot pair, \<open>None\<close> when the pass ended
  with an exception; and the elements that are left of a node after \<open>findPatternDeep\<close>.
\<close>

definition classify ::
  "selectorEngine \<Rightarrow> pattern list \<Rightarrow> node \<Rightarrow> node \<Rightarrow> node \<Rightarrow> node option" where
  "classify q ps newer older document =
     (case findPatternDeep q ps newer older document of
        Inl e \<Rightarrow> None
      | Inr (r, older', document') \<Rightarrow> Some document')"

fun remaining :: "node option \<Rightarrow> element list" where
  "remaining None = []"
| "remaining (Some n) = elements n"

text \<open>
  A page with two offers side by side, \<open><span>5 St\xFCck verkauft</span><span>3 St\xFCck
  verkauft</span>\<close>, and its live document after the pass.
\<close>

definition twinChildren :: "node list" where
  "twinChildren =
     [Element (el ''span'' ''0'') [Text (str ''5 St'' @ [252] @ str ''ck verkauft'')],
      Element (el ''span'' ''1'') [Text (str ''3 St'' @ [252] @ str ''ck verkauft'')]]"

definition twinBody :: node where
  "twinBody = Element bodyElement twinChildren"

definition twinDocumentTagged :: node where
  "twinDocumentTagged =
     documentOf (Element bodyElement
       [Element ((el ''span'' ''0'')
            \<lparr>classList := [patternDetectedClassName, extensionClassPrefix @ str ''scarcity'']\<rparr>)
          [Text (str ''5 St'' @ [252] @ str ''ck verkauft'')],
        Element (el ''span'' ''1'') [Text (str ''3 St'' @ [252] @ str ''ck verkauft'')]])"

section \<open>Identifiers (addPhidForEveryElement)\<close>

text \<open>
  The counter is the property \<open>counter\<close> of the global object, which is what \<open>this\<close> is
  in the function. Before the first call the property is \<open>undefined\<close> (\<open>None\<close>), unless
  the page has an element with the name or id \<open>counter\<close>: the global object gives
  access to such elements by their name, and reading the property then gives an
  object of the page (\<open>NamedObject\<close>).

  A counter that is a number counts: \<open>counter += 1\<close> is exact below \<open>2^53\<close> and leaves
  \<open>2^53\<close> as it is, since \<open>2^53 + 1\<close> is not a number of the format and is rounded back.
  Counting from zero by one reaches nothing above \<open>2^53\<close>. \<open>+= 1\<close> on an object or a
  string appends the character \<open>1\<close> to its text, and the counter is a string from then
  on (\<open>Chars\<close>).
\<close>

datatype counter = Number nat | Chars jsstring | NamedObject

definition increment :: "nat \<Rightarrow> nat" where
  "increment c = (if c < 2 ^ 53 then c + 1 else c)"

text \<open>
  The attribute is set to the counter, converted to a string: a number is stored as
  its decimal text. The text of an object of the page is what its conversion to a
  string gives (\<open>[object HTMLDivElement]\<close> for most elements, the address for a link,
  which may be empty) or the exception that the conversion throws; it is not fixed by
  the sources and is the parameter \<open>objectText\<close>.
\<close>

fun toDecimal :: "nat \<Rightarrow> jsstring" where
  "toDecimal n = (if n < 10 then [48 + n] else toDecimal (n div 10) @ [48 + n mod 10])"

declare toDecimal.simps [simp del]

fun counterText :: "exn + jsstring \<Rightarrow> counter \<Rightarrow> exn + jsstring" where
  "counterText objectText (Number n) = Inr (toDecimal n)"
| "counterText objectText (Chars s) = Inr s"
| "counterText objectText NamedObject = objectText"

fun plusOne :: "exn + jsstring \<Rightarrow> counter \<Rightarrow> exn + counter" where
  "plusOne objectText (Number n) = Inr (Number (increment n))"
| "plusOne objectText (Chars s) = Inr (Chars (s @ str ''1''))"
| "plusOne objectText NamedObject =
     (case objectText of Inl e \<Rightarrow> Inl e | Inr s \<Rightarrow> Inr (Chars (s @ str ''1'')))"

text \<open>\<open>this.counter || 0\<close>: zero for \<open>undefined\<close>, for zero and for the empty string.\<close>

fun orZero :: "counter option \<Rightarrow> counter" where
  "orZero None = Number 0"
| "orZero (Some (Number n)) = (if n = 0 then Number 0 else Number n)"
| "orZero (Some (Chars s)) = (if s = [] then Number 0 else Chars s)"
| "orZero (Some NamedObject) = NamedObject"

text \<open>\<open>!node.dataset.phid\<close>: the attribute is absent or empty.\<close>

definition unstamped :: "element \<Rightarrow> bool" where
  "unstamped a = (phid a = None \<or> phid a = Some [])"

text \<open>The body of the loop: the assignment to the attribute, then \<open>counter += 1\<close>.\<close>

definition stampElement :: "exn + jsstring \<Rightarrow> element \<Rightarrow> counter \<Rightarrow> exn + element \<times> counter" where
  "stampElement objectText a c =
     (if unstamped a then
        (case counterText objectText c of
           Inl e \<Rightarrow> Inl e
         | Inr t \<Rightarrow>
            (case plusOne objectText c of
               Inl e \<Rightarrow> Inl e
             | Inr c' \<Rightarrow> Inr (a\<lparr>phid := Some t\<rparr>, c')))
      else Inr (a, c))"

text \<open>
  The loop over \<open>dom.querySelectorAll("*")\<close>: the elements below \<open>dom\<close> in document
  order, each stamped in place.
\<close>

primrec addPhid :: "exn + jsstring \<Rightarrow> node \<Rightarrow> counter \<Rightarrow> exn + node \<times> counter"
  and addPhidList :: "exn + jsstring \<Rightarrow> node list \<Rightarrow> counter \<Rightarrow> exn + node list \<times> counter" where
  "addPhid objectText (Element a cs) c =
     (case stampElement objectText a c of
        Inl e \<Rightarrow> Inl e
      | Inr (a', c') \<Rightarrow>
          (case addPhidList objectText cs c' of
             Inl e \<Rightarrow> Inl e
           | Inr (cs', c'') \<Rightarrow> Inr (Element a' cs', c'')))"
| "addPhid objectText (Text s) c = Inr (Text s, c)"
| "addPhidList objectText [] c = Inr ([], c)"
| "addPhidList objectText (n # ns) c =
     (case addPhid objectText n c of
        Inl e \<Rightarrow> Inl e
      | Inr (n', c') \<Rightarrow>
          (case addPhidList objectText ns c' of
             Inl e \<Rightarrow> Inl e
           | Inr (ns', c'') \<Rightarrow> Inr (n' # ns', c'')))"

text \<open>
  \<open>this.counter = this.counter || 0\<close>, then the loop. The function is called with
  \<open>document.body\<close>; a text node has no \<open>querySelectorAll\<close>.
\<close>

definition addPhidForEveryElement ::
  "exn + jsstring \<Rightarrow> node \<Rightarrow> counter option \<Rightarrow> exn + node \<times> counter option" where
  "addPhidForEveryElement objectText domTree c =
     (let counter0 = orZero c in
      case domTree of
        Element a cs \<Rightarrow>
          (case addPhidList objectText cs counter0 of
             Inl e \<Rightarrow> Inl e
           | Inr (cs', counter') \<Rightarrow> Inr (Element a cs', Some counter'))
      | Text s \<Rightarrow> Inl TypeError)"







text \<open>An example: a page with three elements, the second one stamped already.\<close>

definition freshElement :: "string \<Rightarrow> element" where
  "freshElement t = (el t [])\<lparr>phid := None\<rparr>"






text \<open>
  A page with a link named \<open>counter\<close> that has no address, so that its text is empty:
  \<open><a id="counter"></a><p></p>\<close>; the page after a call, and after a second call.
\<close>

definition namedCounterBody :: node where
  "namedCounterBody =
     Element bodyElement
       [Element (freshElement ''a'') [], Element (freshElement ''p'') []]"



definition namedCounterBodyStamped :: node where
  "namedCounterBodyStamped =
     Element bodyElement
       [Element ((freshElement ''a'')\<lparr>phid := Some []\<rparr>) [], Element (el ''p'' ''1'') []]"

definition namedCounterBodyAgain :: node where
  "namedCounterBodyAgain =
     Element bodyElement [Element (el ''a'' ''11'') [], Element (el ''p'' ''1'') []]"


section \<open>The result object (getPatternsResults)\<close>






record patternResult =
  patternName :: jsstring
  elementsVisible :: "jsstring option list"
  elementsHidden :: "jsstring option list"

record results =
  patterns :: "patternResult list"
  countVisible :: nat
  count :: nat






text \<open>Tagged elements for examples.\<close>

definition taggedDiv :: element where
  "taggedDiv =
     (el ''div'' ''0'')
       \<lparr>classList := [patternDetectedClassName, extensionClassPrefix @ str ''scarcity'']\<rparr>"


definition taggedSpan :: element where
  "taggedSpan =
     (el ''span'' ''1'')
       \<lparr>classList := [patternDetectedClassName, extensionClassPrefix @ str ''scarcity'']\<rparr>"

text \<open>The live document of the offer page with both elements tagged as scarcity.\<close>

definition offerDocumentTagged :: node where
  "offerDocumentTagged =
     documentOf (Element bodyElement
       [Element taggedDiv
          [Text (str ''10 St'' @ [252] @ str ''ck verf'' @ [252] @ str ''gbar ''),
           Element taggedSpan [Text (str ''5 St'' @ [252] @ str ''ck verkauft'')]]])"








text \<open>
  Elements for examples: an HTML \<open>span\<close> and an SVG \<open>text\<close> element with the identifier
  \<open>4\<close> and one text node. The SVG element has no \<open>innerText\<close>.
\<close>

definition spanWith :: "jsstring \<Rightarrow> node" where
  "spanWith t = Element (el ''span'' ''4'') [Text t]"

definition svgTextWith :: "jsstring \<Rightarrow> node" where
  "svgTextWith t =
     Element ((el ''text'' ''4'')\<lparr>html := False, offsetWidth := 0, offsetHeight := 0\<rparr>) [Text t]"

definition offerText :: jsstring where
  "offerText = str ''10 St'' @ [252] @ str ''ck verf'' @ [252] @ str ''gbar''"

section \<open>Scheduling of the passes (patternHighlighting and the observer)\<close>

text \<open>
  \<open>patternHighlighting\<close> is an asynchronous function and the script runs on one
  thread, so what it does between two waits happens at once. Of its state only the
  lock and the connection of the mutation observer matter for when passes run.
  \<^item> The entry checks the lock and returns if it is set; otherwise it sets the lock and
    disconnects the observer, and the pass is under way.
  \<^item> The end of the pass connects the observer again and clears the lock.
  \<^item> The observer calls \<open>patternHighlighting(true)\<close> when the page changes while it is
    connected; a disconnected observer delivers nothing.
  \<open>started\<close> counts the passes that have got past the lock and \<open>finished\<close> those that
  have reached their end.
\<close>

record scheduler =
  lock :: bool
  observing :: bool
  started :: nat
  finished :: nat

datatype event =
    Call bool
  | Mutation
  | Finish

definition patternHighlightingEntry :: "scheduler \<Rightarrow> scheduler" where
  "patternHighlightingEntry st =
     (if lock st = True then st
      else st\<lparr>lock := True, observing := False, started := started st + 1\<rparr>)"

definition patternHighlightingEnd :: "scheduler \<Rightarrow> scheduler" where
  "patternHighlightingEnd st =
     st\<lparr>observing := True, lock := False, finished := finished st + 1\<rparr>"

text \<open>
  \<open>Call w\<close> is a call of \<open>patternHighlighting(w)\<close> by the initialisation or by the
  message listener, \<open>Mutation\<close> a change of the page, and \<open>Finish\<close> the moment at which
  the pass under way, if there is one, reaches its end.
\<close>

fun step :: "scheduler \<Rightarrow> event \<Rightarrow> scheduler" where
  "step st (Call waitForChanges) = patternHighlightingEntry st"
| "step st Mutation = (if observing st then patternHighlightingEntry st else st)"
| "step st Finish = (if lock st then patternHighlightingEnd st else st)"

definition run :: "scheduler \<Rightarrow> event list \<Rightarrow> scheduler" where
  "run st events = foldl step st events"

text \<open>
  The scheduler when the script is loaded, while a pass is under way, and between two
  passes; \<open>n\<close> passes have started and \<open>m\<close> have finished.
\<close>

definition initial :: scheduler where
  "initial = \<lparr>lock = False, observing = False, started = 0, finished = 0\<rparr>"

definition running :: "nat \<Rightarrow> nat \<Rightarrow> scheduler" where
  "running n m = \<lparr>lock = True, observing = False, started = n, finished = m\<rparr>"

definition idle :: "nat \<Rightarrow> nat \<Rightarrow> scheduler" where
  "idle n m = \<lparr>lock = False, observing = True, started = n, finished = m\<rparr>"

text \<open>An event that asks for a pass: a call or a change of the page.\<close>

fun isRequest :: "event \<Rightarrow> bool" where
  "isRequest Finish = False"
| "isRequest e = True"

section \<open>Properties of the validation\<close>

lemma validateDetectionFuncs_iff:
  "validateDetectionFuncs fs = list_all (\<lambda>f. typeofFunction f \<and> functionLength f = 2) fs"
  by (induction fs) auto

lemma typeofString_truthy_iff:
  "(truthy v \<and> typeofString v) = (\<exists>s. v = Str s \<and> s \<noteq> [])"
  by (cases v) auto

lemma function2_iff:
  "(typeofFunction f \<and> functionLength f = 2) = (\<exists>d. f = Fun 2 d)"
  by (cases f) auto

lemma validatePatterns_False:
  assumes "p \<in> set ps"
    and "\<not> (truthy (p ''name'') \<and> typeofString (p ''name''))
       \<or> \<not> (truthy (p ''className'') \<and> typeofString (p ''className''))
       \<or> \<not> isArray (p ''detectionFunctions'')
       \<or> arrayElements (p ''detectionFunctions'') = []
       \<or> \<not> validateDetectionFuncs (arrayElements (p ''detectionFunctions''))
       \<or> \<not> (truthy (p ''infoUrl'') \<and> typeofString (p ''infoUrl''))
       \<or> \<not> (truthy (p ''info'') \<and> typeofString (p ''info''))"
  shows "validatePatterns ps = False"
  using assms by (induction ps) auto

lemma length_setAdd: "length (setAdd s v) \<le> Suc (length s)"
  by (simp add: setAdd_def)

lemma length_foldl_setAdd: "length (foldl setAdd s vs) \<le> length s + length vs"
proof (induction vs arbitrary: s)
  case Nil
  then show ?case by simp
next
  case (Cons v vs)
  have "length (foldl setAdd (setAdd s v) vs) \<le> length (setAdd s v) + length vs"
    by (rule Cons.IH)
  also have "\<dots> \<le> Suc (length s) + length vs"
    using length_setAdd [of s v] by simp
  finally show ?case by simp
qed

lemma sameValueZero_eq: "sameValueZero v w \<Longrightarrow> v = w"
  by (induction v w rule: sameValueZero.induct) auto

lemma sameValueZero_refl_Str: "sameValueZero (Str s) (Str s)"
  by simp

lemma setAdd_keeps: "list_ex (sameValueZero v) s \<Longrightarrow> list_ex (sameValueZero v) (setAdd s w)"
  by (auto simp: setAdd_def list_ex_iff)

lemma foldl_setAdd_keeps:
  "list_ex (sameValueZero v) s \<Longrightarrow> list_ex (sameValueZero v) (foldl setAdd s vs)"
  by (induction vs arbitrary: s) (auto simp: setAdd_keeps)

lemma foldl_setAdd_present:
  "list_ex (sameValueZero v) s \<Longrightarrow> v \<in> set vs
     \<Longrightarrow> length (foldl setAdd s vs) < length s + length vs"
proof (induction vs arbitrary: s)
  case Nil
  then show ?case by simp
next
  case (Cons w vs)
  show ?case
  proof (cases "v = w")
    case True
    with Cons.prems have "setAdd s w = s" by (simp add: setAdd_def)
    then have "length (foldl setAdd (setAdd s w) vs) \<le> length s + length vs"
      using length_foldl_setAdd [of s vs] by simp
    then show ?thesis by simp
  next
    case False
    with Cons.prems have "v \<in> set vs" by simp
    moreover have "list_ex (sameValueZero v) (setAdd s w)"
      using Cons.prems(1) by (rule setAdd_keeps)
    ultimately have "length (foldl setAdd (setAdd s w) vs) < length (setAdd s w) + length vs"
      by (rule Cons.IH [rotated])
    then show ?thesis using length_setAdd [of s w] by simp
  qed
qed

lemma setAdd_adds_Str: "list_ex (sameValueZero (Str n)) (setAdd s (Str n))"
  by (auto simp: setAdd_def list_ex_iff)

lemma foldl_setAdd_duplicate_Str:
  "\<not> distinct vs \<Longrightarrow> \<forall>v \<in> set vs. \<exists>n. v = Str n
     \<Longrightarrow> length (foldl setAdd s vs) < length s + length vs"
proof (induction vs arbitrary: s)
  case Nil
  then show ?case by simp
next
  case (Cons w vs)
  from Cons.prems(2) obtain n where w: "w = Str n" by auto
  show ?case
  proof (cases "w \<in> set vs")
    case True
    have "list_ex (sameValueZero w) (setAdd s w)"
      unfolding w by (rule setAdd_adds_Str)
    then have "length (foldl setAdd (setAdd s w) vs) < length (setAdd s w) + length vs"
      using True by (rule foldl_setAdd_present)
    then show ?thesis using length_setAdd [of s w] by simp
  next
    case False
    with Cons.prems have "\<not> distinct vs" and "\<forall>v \<in> set vs. \<exists>n. v = Str n" by auto
    then have "length (foldl setAdd (setAdd s w) vs) < length (setAdd s w) + length vs"
      by (rule Cons.IH)
    then show ?thesis using length_setAdd [of s w] by simp
  qed
qed

lemma validatePatterns_names_Str:
  "validatePatterns ps \<Longrightarrow> \<forall>p \<in> set ps. \<exists>n. p ''name'' = Str n"
proof (induction ps)
  case Nil
  then show ?case by simp
next
  case (Cons p ps)
  from Cons.prems have "truthy (p ''name'') \<and> typeofString (p ''name'')"
    by (auto split: if_splits)
  then have "\<exists>n. p ''name'' = Str n" by (auto simp: typeofString_truthy_iff)
  moreover from Cons.prems have "validatePatterns ps" by (auto split: if_splits)
  ultimately show ?case using Cons.IH by simp
qed

lemma validatePatternConfig_duplicate:
  assumes "\<not> distinct (map (\<lambda>p. p ''name'') ps)"
  shows "validatePatternConfig ps = False"
proof (cases "validatePatterns ps")
  case False
  then show ?thesis by (simp add: validatePatternConfig_def Let_def)
next
  case True
  then have "\<forall>v \<in> set (map (\<lambda>p. p ''name'') ps). \<exists>n. v = Str n"
    using validatePatterns_names_Str [of ps] by auto
  with assms have "length (foldl setAdd [] (map (\<lambda>p. p ''name'') ps))
      < length ([]::jsval list) + length (map (\<lambda>p. p ''name'') ps)"
    by (rule foldl_setAdd_duplicate_Str)
  then show ?thesis by (simp add: validatePatternConfig_def newSet_def Let_def)
qed

text \<open>
  Claim C7. \<open>validatePatternConfig\<close> returns \<open>false\<close> for every configuration in which
  two patterns have the same name, and for every configuration with a pattern whose
  name, class name, info URL or info is missing, empty or not a string, whose
  detection functions are not an array or an empty one, or one of whose detection
  functions is not a function of two parameters. \<open>initPatternHighlighter\<close> then does not
  start the engine at all, whatever the activation state: no pattern is run.
\<close>

theorem validatePatternConfig_rejects:
  assumes "\<not> distinct (map (\<lambda>p. p ''name'') ps)
     \<or> (\<exists>p \<in> set ps.
           (\<forall>s. p ''name'' = Str s \<longrightarrow> s = [])
         \<or> (\<forall>s. p ''className'' = Str s \<longrightarrow> s = [])
         \<or> (\<forall>s. p ''infoUrl'' = Str s \<longrightarrow> s = [])
         \<or> (\<forall>s. p ''info'' = Str s \<longrightarrow> s = [])
         \<or> (\<forall>fs. p ''detectionFunctions'' = Arr fs \<longrightarrow> fs = [])
         \<or> (\<exists>fs. p ''detectionFunctions'' = Arr fs \<and> (\<exists>f \<in> set fs. \<forall>d. f \<noteq> Fun 2 d)))"
  shows "validatePatternConfig ps = False
     \<and> initPatternHighlighter isEnabled (validatePatternConfig ps) \<noteq> Started"
proof -
  consider (dup) "\<not> distinct (map (\<lambda>p. p ''name'') ps)"
    | (bad) p where "p \<in> set ps"
        "(\<forall>s. p ''name'' = Str s \<longrightarrow> s = [])
         \<or> (\<forall>s. p ''className'' = Str s \<longrightarrow> s = [])
         \<or> (\<forall>s. p ''infoUrl'' = Str s \<longrightarrow> s = [])
         \<or> (\<forall>s. p ''info'' = Str s \<longrightarrow> s = [])
         \<or> (\<forall>fs. p ''detectionFunctions'' = Arr fs \<longrightarrow> fs = [])
         \<or> (\<exists>fs. p ''detectionFunctions'' = Arr fs \<and> (\<exists>f \<in> set fs. \<forall>d. f \<noteq> Fun 2 d))"
    using assms by blast
  then have "validatePatternConfig ps = False"
  proof cases
    case dup
    then show ?thesis by (rule validatePatternConfig_duplicate)
  next
    case bad
    have "\<not> (truthy (p ''name'') \<and> typeofString (p ''name''))
       \<or> \<not> (truthy (p ''className'') \<and> typeofString (p ''className''))
       \<or> \<not> isArray (p ''detectionFunctions'')
       \<or> arrayElements (p ''detectionFunctions'') = []
       \<or> \<not> validateDetectionFuncs (arrayElements (p ''detectionFunctions''))
       \<or> \<not> (truthy (p ''infoUrl'') \<and> typeofString (p ''infoUrl''))
       \<or> \<not> (truthy (p ''info'') \<and> typeofString (p ''info''))"
      using bad(2)
    proof (elim disjE exE conjE bexE)
      fix fs f
      assume "p ''detectionFunctions'' = Arr fs" "f \<in> set fs" "\<forall>d. f \<noteq> Fun 2 d"
      then have "\<not> validateDetectionFuncs (arrayElements (p ''detectionFunctions''))"
        by (auto simp: validateDetectionFuncs_iff list_all_iff function2_iff)
      then show ?thesis by simp
    next
      assume "\<forall>fs. p ''detectionFunctions'' = Arr fs \<longrightarrow> fs = []"
      then have "\<not> isArray (p ''detectionFunctions'')
          \<or> arrayElements (p ''detectionFunctions'') = []"
        by (cases "p ''detectionFunctions''") auto
      then show ?thesis by blast
    qed (auto simp: typeofString_truthy_iff)
    with bad(1) have "validatePatterns ps = False" by (rule validatePatterns_False)
    then show ?thesis by (simp add: validatePatternConfig_def Let_def)
  qed
  then show ?thesis by (simp add: initPatternHighlighter_def)
qed


theorem validatePatternConfig_rejects_witness:
  "\<not> distinct (map (\<lambda>p. p ''name'')
        [exampleObject ''Countdown'' ''countdown'', exampleObject ''Countdown'' ''scarcity''])
   \<and> validatePatternConfig
        [exampleObject ''Countdown'' ''countdown'', exampleObject ''Countdown'' ''scarcity'']
       = False
   \<and> initPatternHighlighter True
        (validatePatternConfig
           [exampleObject ''Countdown'' ''countdown'', exampleObject ''Countdown'' ''scarcity''])
       \<noteq> Started"
proof -
  have h: "\<not> distinct (map (\<lambda>p. p ''name'')
        [exampleObject ''Countdown'' ''countdown'', exampleObject ''Countdown'' ''scarcity''])"
    by (simp add: exampleObject_def)
  note T = validatePatternConfig_rejects [OF disjI1, OF h, of True]
  show ?thesis using h T by blast
qed

text \<open>
  The validation is not empty: a configuration of well-formed patterns with different
  names passes, and the engine starts in an activated tab.
\<close>

lemma validatePatternConfig_accepts:
  "validatePatternConfig
       [exampleObject ''Countdown'' ''countdown'', exampleObject ''Scarcity'' ''scarcity'']
   \<and> initPatternHighlighter True
        (validatePatternConfig
           [exampleObject ''Countdown'' ''countdown'', exampleObject ''Scarcity'' ''scarcity''])
       = Started"
  by (simp add: validatePatternConfig_def newSet_def setAdd_def exampleObject_def
      initPatternHighlighter_def str_def)

text \<open>The later revision of the validation accepts no configuration that the first rejects.\<close>

lemma validatePatternsLang_imp: "validatePatternsLang ps \<Longrightarrow> validatePatterns ps"
  by (induction ps) (auto split: if_splits)

lemma validatePatternConfigLang_imp:
  "validatePatternConfigLang ps \<Longrightarrow> validatePatternConfig ps"
  by (auto simp: validatePatternConfigLang_def validatePatternConfig_def Let_def
      validatePatternsLang_imp split: if_splits)

section \<open>Properties of the pattern evaluation\<close>

lemma rep_numeral:
  "rep m lo (numeral k) s =
     concat (map (rep m (lo - 1) (pred_numeral k))
       (if lo = 0 then filter (\<lambda>t. length t < length s) (m s) else m s))
     @ (if lo = 0 then [s] else [])"
  by (simp add: numeral_eq_Suc)

lemmas regex_defs = str_def rxLit_def rxSeq_def rxOpt_def rxStar_def rxPlus_def word_def
  canonicalize_def isWhiteSpace_def rep_numeral

lemmas countdown_defs = colonGroup_def unitGroup_def countdownReg_def
  countdownRegBad_def wordsDE_def wordsEN_def digits_def stringMatch_def parseInt_def






lemma runDetectionFunctions_True:
  "runDetectionFunctions fs node nodeOld = Inr True
     \<Longrightarrow> list_ex (\<lambda>func. case func node nodeOld of Inl e \<Rightarrow> False | Inr v \<Rightarrow> truthy v) fs"
  by (induction fs) (auto split: sum.splits if_splits)

lemma findPatterInNode_Some:
  "findPatterInNode ps node nodeOld = Inr (Some c)
     \<Longrightarrow> \<exists>p \<in> set ps. className p = c \<and> patternMatches node nodeOld p"
proof (induction ps)
  case Nil
  then show ?case by simp
next
  case (Cons p ps)
  show ?case
  proof (cases "runDetectionFunctions (detectionFunctions p) node nodeOld")
    case (Inl e)
    with Cons.prems show ?thesis by simp
  next
    case (Inr b)
    show ?thesis
    proof (cases b)
      case True
      with Inr have "patternMatches node nodeOld p"
        unfolding patternMatches_def by (simp add: runDetectionFunctions_True)
      with Inr True Cons.prems show ?thesis by simp
    next
      case False
      with Inr Cons show ?thesis by simp
    qed
  qed
qed

lemma countdownDetection_None: "countdownDetection reg regBad node None = Inr (Bool False)"
  by (simp add: countdownDetection_def)

lemma countdownDetection_same:
  "innerText node = innerText old \<Longrightarrow> countdownDetection reg regBad node (Some old) = Inr (Bool False)"
  by (simp add: countdownDetection_def)


lemma findPatternDeep_children:
  "findPatternDeepChildren q ps cs False domOld document = Inr (cs', domOld', document')
     \<Longrightarrow> findPatternDeep q ps (Element a cs) domOld document
         = visitNode q ps a cs' domOld' document'"
  by simp







text \<open>
  Claim C5 is stated for a node and its text. The detection functions read the text
  through \<open>innerText\<close>, which only HTML elements have. For an SVG \<open>text\<close> element that
  reads 23:59:57 and whose previous state reads 23:59:58 both values are \<open>undefined\<close>,
  the guard sees no change, and the function returns \<open>false\<close>.
\<close>

theorem countdown_svg_counterexample:
  "textContent (svgTextWith (str ''23:59:57'')) = str ''23:59:57''
   \<and> textContent (svgTextWith (str ''23:59:58'')) = str ''23:59:58''
   \<and> countdownDE (svgTextWith (str ''23:59:57'')) (Some (svgTextWith (str ''23:59:58'')))
       = Inr (Bool False)
   \<and> countdownEN (svgTextWith (str ''23:59:57'')) (Some (svgTextWith (str ''23:59:58'')))
       = Inr (Bool False)
   \<and> findPatterInNode (patternConfig messageKeys) (svgTextWith (str ''23:59:57''))
         (Some (svgTextWith (str ''23:59:58'')))
       = Inr None"
  by (simp add: svgTextWith_def el_def patternConfig_def countdownDE_def
      countdownEN_def countdownDetection_def scarcity_def scarcityRegex_def
      scarcityEN_def scarcityRegexEN_def socialProof_def socialProofRegex_def
      socialProofEN_def socialProofRegexEN_def forcedContinuity_def forcedContinuityRegex_def
      forcedContinuityEN_def forcedContinuityRegexEN_def amountDE_def amountEN_def numberEN_def
      ordinalEN_def toString_def regex_defs)

text \<open>
  Claim C5, amended. For HTML elements, whose \<open>innerText\<close> is their text: the German
  countdown detection function (and the English one, and the one of the later revision)
  returns \<open>true\<close> for an element that reads 23:59:57 and whose previous state reads
  23:59:58, and \<open>false\<close> for an element that reads 23:59:58 in both states;
  \<open>findPatterInNode\<close> with the configured patterns then reports the countdown.
\<close>

theorem countdown_scenario:
  assumes "innerText node = Some (str ''23:59:57'')"
    and "innerText old = Some (str ''23:59:58'')"
    and "innerText unchanged = Some (str ''23:59:58'')"
  shows "countdownDE node (Some old) = Inr (Bool True)
     \<and> countdownEN node (Some old) = Inr (Bool True)
     \<and> countdownBoth node (Some old) = Inr (Bool True)
     \<and> countdownDE unchanged (Some old) = Inr (Bool False)
     \<and> countdownEN unchanged (Some old) = Inr (Bool False)
     \<and> countdownBoth unchanged (Some old) = Inr (Bool False)
     \<and> findPatterInNode (patternConfig getMessage) node (Some old)
         = Inr (Some (str ''countdown-de''))"
proof -
  have de: "countdownDE node (Some old) = Inr (Bool True)"
    using assms(1,2)
    by (simp add: countdownDE_def countdownDetection_def countdown_defs regex_defs)
  have en: "countdownEN node (Some old) = Inr (Bool True)"
    using assms(1,2)
    by (simp add: countdownEN_def countdownDetection_def countdown_defs regex_defs)
  have both: "countdownBoth node (Some old) = Inr (Bool True)"
    using assms(1,2)
    by (simp add: countdownBoth_def countdownDetection_def countdown_defs regex_defs)
  have same: "innerText unchanged = innerText old"
    using assms(2,3) by simp
  have "findPatterInNode (patternConfig getMessage) node (Some old)
      = Inr (Some (str ''countdown-de''))"
    using de by (simp add: patternConfig_def)
  with de en both same show ?thesis
    by (simp add: countdownDE_def countdownEN_def countdownBoth_def countdownDetection_same)
qed

theorem countdown_scenario_witness:
  "innerText (spanWith (str ''23:59:57'')) = Some (str ''23:59:57'')
   \<and> innerText (spanWith (str ''23:59:58'')) = Some (str ''23:59:58'')
   \<and> countdownDE (spanWith (str ''23:59:57'')) (Some (spanWith (str ''23:59:58'')))
       = Inr (Bool True)
   \<and> countdownDE (spanWith (str ''23:59:58'')) (Some (spanWith (str ''23:59:58'')))
       = Inr (Bool False)
   \<and> findPatterInNode (patternConfig messageKeys) (spanWith (str ''23:59:57''))
         (Some (spanWith (str ''23:59:58'')))
       = Inr (Some (str ''countdown-de''))"
proof -
  have h1: "innerText (spanWith (str ''23:59:57'')) = Some (str ''23:59:57'')"
    by (simp add: spanWith_def el_def)
  have h2: "innerText (spanWith (str ''23:59:58'')) = Some (str ''23:59:58'')"
    by (simp add: spanWith_def el_def)
  note T = countdown_scenario [OF h1 h2 h2, of messageKeys]
  show ?thesis using h1 h2 T by blast
qed

text \<open>
  Claim C6 is stated for a node and its text. The scarcity detection function tests
  \<open>node.innerText\<close>, which only HTML elements have: for an SVG \<open>text\<close> element that reads
  "10 St\xFCck verf\xFCgbar" it tests the text \<open>undefined\<close> and returns \<open>false\<close>.
\<close>

theorem scarcity_svg_counterexample:
  "textContent (svgTextWith offerText) = offerText
   \<and> innerText (svgTextWith offerText) = None
   \<and> scarcity (svgTextWith offerText) None = Inr (Bool False)
   \<and> findPatterInNode (patternConfig messageKeys) (svgTextWith offerText) None = Inr None"
  by (simp add: svgTextWith_def offerText_def el_def patternConfig_def countdownDE_def
      countdownEN_def countdownDetection_def scarcity_def scarcityRegex_def
      scarcityEN_def scarcityRegexEN_def socialProof_def socialProofRegex_def
      socialProofEN_def socialProofRegexEN_def forcedContinuity_def forcedContinuityRegex_def
      forcedContinuityEN_def forcedContinuityRegexEN_def amountDE_def amountEN_def numberEN_def
      ordinalEN_def toString_def regex_defs)

text \<open>
  Claim C6, amended. For an HTML element, whose \<open>innerText\<close> is its text: the scarcity
  detection function returns \<open>true\<close> for an element that reads "10 St\xFCck verf\xFCgbar"
  and has no previous state; its result depends on the \<open>innerText\<close> of the current node
  only, whatever the previous state is; \<open>findPatterInNode\<close> with the configured patterns
  reports scarcity for the new element.
\<close>

theorem scarcity_scenario:
  assumes "innerText node = Some offerText"
  shows "scarcity node None = Inr (Bool True)
     \<and> scarcity node nodeOld = scarcity node None
     \<and> (innerText other = innerText node \<longrightarrow> scarcity other otherOld = scarcity node None)
     \<and> findPatterInNode (patternConfig getMessage) node None = Inr (Some (str ''scarcity''))"
proof -
  have sc: "scarcity node None = Inr (Bool True)"
    using assms by (simp add: scarcity_def scarcityRegex_def toString_def offerText_def regex_defs)
  have "findPatterInNode (patternConfig getMessage) node None = Inr (Some (str ''scarcity''))"
    using sc by (simp add: patternConfig_def countdownDE_def countdownDetection_None)
  with sc show ?thesis by (simp add: scarcity_def)
qed

theorem scarcity_scenario_witness:
  "innerText (spanWith offerText) = Some offerText
   \<and> innerText (Element (el ''div'' ''5'')
       [Text (str ''10 St''), Element (el ''b'' ''6'') [Text ([252] @ str ''ck'')],
        Text (str '' verf'' @ [252] @ str ''gbar'')])
     = innerText (spanWith offerText)
   \<and> scarcity (spanWith offerText) None = Inr (Bool True)
   \<and> scarcity (spanWith offerText) (Some (spanWith (str ''ausverkauft''))) = Inr (Bool True)
   \<and> scarcity (Element (el ''div'' ''5'')
         [Text (str ''10 St''), Element (el ''b'' ''6'') [Text ([252] @ str ''ck'')],
          Text (str '' verf'' @ [252] @ str ''gbar'')])
         (Some (Element (el ''div'' ''5'') [Text (str ''ausverkauft'')]))
     = Inr (Bool True)
   \<and> findPatterInNode (patternConfig messageKeys) (spanWith offerText) None
       = Inr (Some (str ''scarcity''))"
proof -
  have h: "innerText (spanWith offerText) = Some offerText"
    by (simp add: spanWith_def el_def)
  have h2: "innerText (Element (el ''div'' ''5'')
       [Text (str ''10 St''), Element (el ''b'' ''6'') [Text ([252] @ str ''ck'')],
        Text (str '' verf'' @ [252] @ str ''gbar'')])
     = innerText (spanWith offerText)"
    by (simp add: spanWith_def offerText_def el_def str_def)
  note T = scarcity_scenario [OF h, of "Some (spanWith (str ''ausverkauft''))"
      "Element (el ''div'' ''5'')
         [Text (str ''10 St''), Element (el ''b'' ''6'') [Text ([252] @ str ''ck'')],
          Text (str '' verf'' @ [252] @ str ''gbar'')]"
      "Some (Element (el ''div'' ''5'') [Text (str ''ausverkauft'')])" messageKeys]
  show ?thesis using h h2 T by simp
qed

text \<open>
  Claim C10. Each countdown detection function returns \<open>false\<close> when the node has no
  previous state and when the text of the node is the same in both states. So
  \<open>findPatterInNode\<close> with the configured patterns never reports a countdown for a node
  without a previous state, whatever its text.
\<close>

theorem countdown_needs_previous_state:
  assumes "d = countdownDE \<or> d = countdownEN \<or> d = countdownBoth"
  shows "d node None = Inr (Bool False)
     \<and> (innerText node = innerText old \<longrightarrow> d node (Some old) = Inr (Bool False))
     \<and> findPatterInNode (patternConfig getMessage) node None \<noteq> Inr (Some (str ''countdown-de''))
     \<and> findPatterInNode (patternConfig getMessage) node None \<noteq> Inr (Some (str ''countdown-en''))"
proof -
  have guard: "d node None = Inr (Bool False)
     \<and> (innerText node = innerText old \<longrightarrow> d node (Some old) = Inr (Bool False))"
    using assms
    by (auto simp: countdownDE_def countdownEN_def countdownBoth_def countdownDetection_None
        countdownDetection_same)
  have de: "findPatterInNode (patternConfig getMessage) node None \<noteq> Inr (Some (str ''countdown-de''))"
  proof
    assume "findPatterInNode (patternConfig getMessage) node None = Inr (Some (str ''countdown-de''))"
    then obtain p where "p \<in> set (patternConfig getMessage)"
      "className p = str ''countdown-de''" "patternMatches node None p"
      using findPatterInNode_Some by blast
    then show False
      by (auto simp: patternConfig_def patternMatches_def str_def countdownDE_def
          countdownDetection_None)
  qed
  have en: "findPatterInNode (patternConfig getMessage) node None \<noteq> Inr (Some (str ''countdown-en''))"
  proof
    assume "findPatterInNode (patternConfig getMessage) node None = Inr (Some (str ''countdown-en''))"
    then obtain p where "p \<in> set (patternConfig getMessage)"
      "className p = str ''countdown-en''" "patternMatches node None p"
      using findPatterInNode_Some by blast
    then show False
      by (auto simp: patternConfig_def patternMatches_def str_def countdownEN_def
          countdownDetection_None)
  qed
  from guard de en show ?thesis by blast
qed

theorem countdown_needs_previous_state_witness:
  "(countdownDE = countdownDE \<or> countdownDE = countdownEN \<or> countdownDE = countdownBoth)
   \<and> innerText (spanWith (str ''23:59:58'')) = innerText (spanWith (str ''23:59:58''))
   \<and> countdownDE (spanWith (str ''23:59:58'')) None = Inr (Bool False)
   \<and> countdownDE (spanWith (str ''23:59:58'')) (Some (spanWith (str ''23:59:58'')))
       = Inr (Bool False)"
proof -
  have h: "countdownDE = countdownDE \<or> countdownDE = countdownEN \<or> countdownDE = countdownBoth"
    by simp
  note T = countdown_needs_previous_state [OF h, of "spanWith (str ''23:59:58'')"
      "spanWith (str ''23:59:58'')" messageKeys]
  show ?thesis using h T by blast
qed

section \<open>Properties of the result object\<close>







section \<open>Properties of the attribution\<close>










section \<open>Properties of the scheduling\<close>

lemma step_running_request: "isRequest e \<Longrightarrow> step (running n m) e = running n m"
  by (cases e) (simp_all add: running_def patternHighlightingEntry_def)

lemma run_running_requests:
  "list_all isRequest events \<Longrightarrow> run (running n m) events = running n m"
  unfolding run_def by (induction events) (simp_all add: step_running_request)

lemma run_append: "run st (es @ fs) = run (run st es) fs"
  by (simp add: run_def)

lemma step_in_flight:
  "started st = finished st + (if lock st then 1 else 0)
     \<Longrightarrow> started (step st e) = finished (step st e) + (if lock (step st e) then 1 else 0)"
  by (cases e) (auto simp: patternHighlightingEntry_def patternHighlightingEnd_def)

lemma run_in_flight:
  "started st = finished st + (if lock st then 1 else 0)
     \<Longrightarrow> started (run st events) = finished (run st events) + (if lock (run st events) then 1 else 0)"
  unfolding run_def
proof (induction events arbitrary: st)
  case Nil
  then show ?case by simp
next
  case (Cons e events)
  from Cons.prems have "started (step st e) = finished (step st e) + (if lock (step st e) then 1 else 0)"
    by (rule step_in_flight)
  then show ?case using Cons.IH [of "step st e"] by simp
qed

text \<open>
  Claim C9 says that the change notifications that arrive during a pass produce exactly
  one follow-up pass. In the source they produce none: the observer is disconnected
  during a pass, a call of \<open>patternHighlighting\<close> during a pass returns at the lock, and
  the end of the pass starts nothing. One pass has started; three changes of the page
  (or three calls) during it and its end leave the scheduler idle with one pass started.
\<close>

theorem coalescing_counterexample:
  "run (running 1 0) [Mutation, Mutation, Mutation, Finish] = idle 1 1
   \<and> run (running 1 0) [Call True, Call True, Call True, Finish] = idle 1 1
   \<and> started (idle 1 1) = 1"
  by (simp add: run_def running_def idle_def patternHighlightingEntry_def
      patternHighlightingEnd_def)

text \<open>
  Claim C9, amended. At most one pass is under way at any time. Every request that
  arrives while a pass is under way (a call of \<open>patternHighlighting\<close> or a change of the
  page) is dropped: it starts no pass and none is queued, so when the pass finishes no
  follow-up pass starts on account of them, however many they were. The next pass
  starts with the first request after the end of the pass, for which the observer has
  been connected again.
\<close>

theorem requests_during_pass_dropped:
  "started (run initial trace) = finished (run initial trace) + (if lock (run initial trace) then 1 else 0)
   \<and> (list_all isRequest events \<longrightarrow>
        run (running n m) events = running n m
      \<and> run (running n m) (events @ [Finish]) = idle n (m + 1)
      \<and> run (running n m) (events @ [Finish, Mutation]) = running (n + 1) (m + 1))"
proof -
  have "started (run initial trace) = finished (run initial trace) + (if lock (run initial trace) then 1 else 0)"
    by (rule run_in_flight) (simp add: initial_def)
  moreover have "run (running n m) events = running n m
      \<and> run (running n m) (events @ [Finish]) = idle n (m + 1)
      \<and> run (running n m) (events @ [Finish, Mutation]) = running (n + 1) (m + 1)"
    if "list_all isRequest events"
  proof -
    have r: "run (running n m) events = running n m"
      using that by (rule run_running_requests)
    show ?thesis
      unfolding run_append r
      by (simp add: run_def running_def idle_def patternHighlightingEntry_def
          patternHighlightingEnd_def)
  qed
  ultimately show ?thesis by blast
qed

theorem requests_during_pass_dropped_witness:
  "list_all isRequest [Mutation, Call True, Mutation, Call False]
   \<and> run (running 1 0) [Mutation, Call True, Mutation, Call False] = running 1 0
   \<and> run (running 1 0) ([Mutation, Call True, Mutation, Call False] @ [Finish]) = idle 1 1
   \<and> run (running 1 0) ([Mutation, Call True, Mutation, Call False] @ [Finish, Mutation])
       = running 2 1"
proof -
  have h: "list_all isRequest [Mutation, Call True, Mutation, Call False]"
    by simp
  note T = requests_during_pass_dropped [of "[]" "[Mutation, Call True, Mutation, Call False]" 1 0,
      THEN conjunct2, rule_format, OF h]
  show ?thesis using h T by (simp add: numeral_2_eq_2)
qed

section \<open>Properties of the identifiers\<close>



























lemma toDecimal_digit: "n < 10 \<Longrightarrow> toDecimal n = [48 + n]"
  by (subst toDecimal.simps) simp

lemmas stamp_defs = addPhidForEveryElement_def stampElement_def unstamped_def increment_def
  toDecimal_digit freshElement_def bodyElement_def el_def str_def



text \<open>
  On a page with an element named \<open>counter\<close> the counter is not a number. With the
  link without address, whose text is empty, the first element is given the empty
  identifier, which counts as none, and a second call on the same page gives it
  another one.
\<close>

lemma named_counter_example:
  "addPhidForEveryElement (Inr []) namedCounterBody (Some NamedObject)
     = Inr (namedCounterBodyStamped, Some (Chars (str ''11'')))
   \<and> addPhidForEveryElement (Inr []) namedCounterBodyStamped (Some (Chars (str ''11'')))
     = Inr (namedCounterBodyAgain, Some (Chars (str ''111'')))"
  by (simp add: namedCounterBody_def namedCounterBodyStamped_def namedCounterBodyAgain_def
      stamp_defs)




section \<open>Properties of the classification pass\<close>

lemma elementsList_append: "elementsList (xs @ ys) = elementsList xs @ elementsList ys"
  by (induction xs) simp_all

lemma nodeAt_shift: "q \<noteq> [] \<Longrightarrow> nodeAt (shiftPath q) (n # ns) = nodeAt q ns"
  by (cases q) simp_all

lemma nodeAt_head: "nodeAt (0 # q) (n # ns) = nodeAt (0 # q) [n]"
  by simp

lemma firstPath_found_both:
  "(\<forall>p. firstPath P n = Some p
        \<longrightarrow> (\<exists>x xs. nodeAt (0 # p) [n] = Some (Element x xs) \<and> P x))
   \<and> (\<forall>p. firstPathList P ns = Some p
        \<longrightarrow> (\<exists>x xs. nodeAt p ns = Some (Element x xs) \<and> P x))"
  (is "?P1 n \<and> ?P2 ns")
proof (rule elements_elementsList.induct [where ?P1.0 = ?P1 and ?P2.0 = ?P2])
  fix a cs
  assume IH: "?P2 cs"
  show "?P1 (Element a cs)"
  proof (intro allI impI)
    fix p
    assume f: "firstPath P (Element a cs) = Some p"
    show "\<exists>x xs. nodeAt (0 # p) [Element a cs] = Some (Element x xs) \<and> P x"
    proof (cases "P a")
      case True
      with f show ?thesis by simp
    next
      case False
      with f have "firstPathList P cs = Some p" by simp
      with IH obtain x xs where x: "nodeAt p cs = Some (Element x xs)" "P x" by blast
      then have "p \<noteq> []" by auto
      with x show ?thesis by simp
    qed
  qed
next
  fix s
  show "?P1 (Text s)" by simp
next
  show "?P2 []" by simp
next
  fix n ns
  assume IH1: "?P1 n" and IH2: "?P2 ns"
  show "?P2 (n # ns)"
  proof (intro allI impI)
    fix p
    assume f: "firstPathList P (n # ns) = Some p"
    show "\<exists>x xs. nodeAt p (n # ns) = Some (Element x xs) \<and> P x"
    proof (cases "firstPath P n")
      case (Some q)
      with f have p: "p = 0 # q" by simp
      from IH1 Some obtain x xs where "nodeAt (0 # q) [n] = Some (Element x xs)" "P x"
        by blast
      then have "nodeAt (0 # q) (n # ns) = Some (Element x xs) \<and> P x"
        by (simp only: nodeAt_head [of q n ns])
      then show ?thesis unfolding p by blast
    next
      case None
      with f obtain q where q: "firstPathList P ns = Some q" and p: "p = shiftPath q"
        by auto
      from IH2 q obtain x xs where x: "nodeAt q ns = Some (Element x xs)" "P x" by blast
      then have "q \<noteq> []" by auto
      with x show ?thesis unfolding p by (simp add: nodeAt_shift)
    qed
  qed
qed

lemma firstPathList_found:
  "firstPathList P ns = Some p \<Longrightarrow> \<exists>x xs. nodeAt p ns = Some (Element x xs) \<and> P x"
  using firstPath_found_both [where n = "Text []" and ns = ns and P = P] by blast

lemma elementsList_split:
  "i < length ns
     \<Longrightarrow> elementsList ns
         = elementsList (take i ns) @ elements (ns ! i) @ elementsList (drop (Suc i) ns)"
proof -
  assume "i < length ns"
  then have "ns = take i ns @ ns ! i # drop (Suc i) ns" by (rule id_take_nth_drop)
  then have "elementsList ns = elementsList (take i ns @ ns ! i # drop (Suc i) ns)" by simp
  then show ?thesis by (simp add: elementsList_append)
qed

lemma changeAt_class_elements:
  "nodeAt p ns = Some (Element x xs)
     \<Longrightarrow> set (elementsList (changeAt (\<lambda>n. [withClassList cl n]) p ns))
         \<subseteq> set (elementsList ns) \<union> {x\<lparr>classList := cl\<rparr>}"
proof (induction p arbitrary: ns)
  case Nil
  then show ?case by simp
next
  case (Cons i p)
  from Cons.prems have i: "i < length ns" by (simp split: if_splits)
  note split = elementsList_split [OF i]
  show ?case
  proof (cases "p = []")
    case True
    with Cons.prems i have at: "ns ! i = Element x xs" by simp
    have "changeAt (\<lambda>n. [withClassList cl n]) (i # p) ns
        = take i ns @ [Element (x\<lparr>classList := cl\<rparr>) xs] @ drop (Suc i) ns"
      using True i at by simp
    then show ?thesis
      using split at by (auto simp: elementsList_append)
  next
    case False
    with Cons.prems i obtain a cs where at: "ns ! i = Element a cs"
      and below: "nodeAt p cs = Some (Element x xs)"
      by (cases "ns ! i") simp_all
    have IH: "set (elementsList (changeAt (\<lambda>n. [withClassList cl n]) p cs))
        \<subseteq> set (elementsList cs) \<union> {x\<lparr>classList := cl\<rparr>}"
      using below by (rule Cons.IH)
    have "changeAt (\<lambda>n. [withClassList cl n]) (i # p) ns
        = take i ns @ Element a (changeAt (\<lambda>n. [withClassList cl n]) p cs) # drop (Suc i) ns"
      using False i at by simp
    then show ?thesis
      using split at IH by (auto simp: elementsList_append)
  qed
qed

lemma set_taggedKeys:
  "set (taggedKeys document)
     = {k. \<exists>a \<in> set (descendants document). tagged a \<and> phid a = Some k}"
proof (intro set_eqI iffI)
  fix k
  assume "k \<in> set (taggedKeys document)"
  then show "k \<in> {k. \<exists>a \<in> set (descendants document). tagged a \<and> phid a = Some k}"
    by (auto simp: taggedKeys_def phidText_def)
next
  fix k
  assume "k \<in> {k. \<exists>a \<in> set (descendants document). tagged a \<and> phid a = Some k}"
  then obtain a where a: "a \<in> set (descendants document)" "tagged a" "phid a = Some k"
    by blast
  then have "phidText (phid a) = k" by (simp add: phidText_def)
  with a show "k \<in> set (taggedKeys document)"
    unfolding taggedKeys_def by force
qed

lemma tagElement_taggedKeys:
  assumes "tagElement q document ident found = Inr document'"
    and "plainIdentifier (phidText ident)"
  shows "set (taggedKeys document') \<subseteq> set (taggedKeys document) \<union> {phidText ident}"
proof (cases "document' = document")
  case True
  then show ?thesis by auto
next
  case False
  with assms(1) obtain p elem cs cl
    where loc: "locateByPhid q document ident = Inr (Some p)"
      and at: "elementAt p document = Some (Element elem cs)"
      and doc': "document' = changeBelow (\<lambda>n. [withClassList cl n]) p document"
    by (auto simp: tagElement_def split: sum.splits option.splits node.splits)
  from at obtain a ns where document: "document = Element a ns"
    and at': "nodeAt p ns = Some (Element elem cs)"
    by (cases document) (auto split: option.splits node.splits)
  from loc assms(2) document have "firstPathList (hasPhid ident) ns = Some p"
    by (simp add: locateByPhid_def)
  from firstPathList_found [OF this] at' have "hasPhid ident elem" by simp
  moreover have "set (descendants document')
      \<subseteq> set (descendants document) \<union> {elem\<lparr>classList := cl\<rparr>}"
    unfolding doc' document using changeAt_class_elements [OF at'] by simp
  ultimately show ?thesis
    by (auto simp: set_taggedKeys hasPhid_def)
qed

lemma visitNode_result:
  assumes "visitNode q ps a cs domOld document = Inr (r, domOld', document')"
    and "plainIdentifier (phidText (phid a))"
  shows "(r = None \<and> set (taggedKeys document') \<subseteq> set (taggedKeys document) \<union> {phidText (phid a)})
     \<or> (r = Some (Element a cs) \<and> document' = document \<and> domOld' = domOld)"
  using assms
  by (auto simp: visitNode_def split: sum.splits option.splits if_splits
      dest: tagElement_taggedKeys)

lemma visitNode_shape:
  "visitNode q ps a cs domOld document = Inr (r, domOld', document')
     \<Longrightarrow> r = None \<or> r = Some (Element a cs)"
  by (auto simp: visitNode_def split: sum.splits option.splits if_splits)

lemma phidKeys_append: "phidKeys (xs @ ys) = phidKeys xs @ phidKeys ys"
  by (simp add: phidKeys_def)

text \<open>
  The invariant of the pass, for a snapshot whose identifiers are plain and different:
  the identifiers that are left are identifiers of the snapshot, and the identifiers
  that the pass tags are those of elements that it has removed.
\<close>

lemma pruning_both:
  "(\<forall>domOld document r domOld' document'.
       findPatternDeep q ps n domOld document = Inr (r, domOld', document')
       \<longrightarrow> set (phidKeys (remaining r)) \<subseteq> set (phidKeys (elements n))
         \<and> (distinct (phidKeys (elements n))
              \<longrightarrow> list_all plainIdentifier (phidKeys (elements n))
              \<longrightarrow> set (taggedKeys document')
                  \<subseteq> set (taggedKeys document)
                    \<union> (set (phidKeys (elements n)) - set (phidKeys (remaining r)))))
   \<and> (\<forall>skip domOld document ns' domOld' document'.
       findPatternDeepChildren q ps ns skip domOld document = Inr (ns', domOld', document')
       \<longrightarrow> set (phidKeys (elementsList ns')) \<subseteq> set (phidKeys (elementsList ns))
         \<and> (distinct (phidKeys (elementsList ns))
              \<longrightarrow> list_all plainIdentifier (phidKeys (elementsList ns))
              \<longrightarrow> set (taggedKeys document')
                  \<subseteq> set (taggedKeys document)
                    \<union> (set (phidKeys (elementsList ns)) - set (phidKeys (elementsList ns')))))"
  (is "?P1 n \<and> ?P2 ns")
proof (rule elements_elementsList.induct [where ?P1.0 = ?P1 and ?P2.0 = ?P2])
  fix a cs
  assume IH: "?P2 cs"
  show "?P1 (Element a cs)"
  proof (intro allI impI)
    fix domOld document r domOld' document'
    assume run: "findPatternDeep q ps (Element a cs) domOld document = Inr (r, domOld', document')"
    then obtain cs' domOld1 document1
      where children: "findPatternDeepChildren q ps cs False domOld document
          = Inr (cs', domOld1, document1)"
        and visit: "visitNode q ps a cs' domOld1 document1 = Inr (r, domOld', document')"
      by (auto split: sum.splits)
    from IH children
    have sub: "set (phidKeys (elementsList cs')) \<subseteq> set (phidKeys (elementsList cs))"
      and tag: "distinct (phidKeys (elementsList cs))
          \<Longrightarrow> list_all plainIdentifier (phidKeys (elementsList cs))
          \<Longrightarrow> set (taggedKeys document1)
              \<subseteq> set (taggedKeys document)
                \<union> (set (phidKeys (elementsList cs)) - set (phidKeys (elementsList cs')))"
      by blast+
    have first: "set (phidKeys (remaining r)) \<subseteq> set (phidKeys (elements (Element a cs)))"
    proof (cases r)
      case None
      then show ?thesis by (simp add: phidKeys_def)
    next
      case (Some n')
      with visitNode_shape [OF visit] have r: "r = Some (Element a cs')" by simp
      have "set (phidKeys (remaining r))
          = insert (phidText (phid a)) (set (phidKeys (elementsList cs')))"
        unfolding r by (simp add: phidKeys_def)
      moreover have "set (phidKeys (elements (Element a cs)))
          = insert (phidText (phid a)) (set (phidKeys (elementsList cs)))"
        by (simp add: phidKeys_def)
      ultimately show ?thesis using sub by blast
    qed
    have second: "set (taggedKeys document')
            \<subseteq> set (taggedKeys document)
              \<union> (set (phidKeys (elements (Element a cs))) - set (phidKeys (remaining r)))"
      if dist: "distinct (phidKeys (elements (Element a cs)))"
        and plain: "list_all plainIdentifier (phidKeys (elements (Element a cs)))"
    proof -
      from dist have d: "distinct (phidKeys (elementsList cs))"
        and fresh: "phidText (phid a) \<notin> set (phidKeys (elementsList cs))"
        by (simp_all add: phidKeys_def)
      from plain have pa: "plainIdentifier (phidText (phid a))"
        and pl: "list_all plainIdentifier (phidKeys (elementsList cs))"
        by (simp_all add: phidKeys_def)
      note t = tag [OF d pl]
      from visitNode_result [OF visit pa] show ?thesis
      proof (elim disjE conjE)
        assume "r = None"
          and "set (taggedKeys document') \<subseteq> set (taggedKeys document1) \<union> {phidText (phid a)}"
        with t show ?thesis by (auto simp: phidKeys_def)
      next
        assume "r = Some (Element a cs')" and "document' = document1"
        with t fresh show ?thesis by (auto simp: phidKeys_def)
      qed
    qed
    from first second
    show "set (phidKeys (remaining r)) \<subseteq> set (phidKeys (elements (Element a cs)))
         \<and> (distinct (phidKeys (elements (Element a cs)))
              \<longrightarrow> list_all plainIdentifier (phidKeys (elements (Element a cs)))
              \<longrightarrow> set (taggedKeys document')
                  \<subseteq> set (taggedKeys document)
                    \<union> (set (phidKeys (elements (Element a cs))) - set (phidKeys (remaining r))))"
      by blast
  qed
next
  fix s
  show "?P1 (Text s)" by simp
next
  show "?P2 []" by auto
next
  fix n ns
  assume IH1: "?P1 n" and IH2: "?P2 ns"
  show "?P2 (n # ns)"
  proof (intro allI impI)
    fix skip domOld document ns' domOld' document'
    assume run: "findPatternDeepChildren q ps (n # ns) skip domOld document
        = Inr (ns', domOld', document')"
    let ?goal = "set (phidKeys (elementsList ns')) \<subseteq> set (phidKeys (elementsList (n # ns)))
         \<and> (distinct (phidKeys (elementsList (n # ns)))
              \<longrightarrow> list_all plainIdentifier (phidKeys (elementsList (n # ns)))
              \<longrightarrow> set (taggedKeys document')
                  \<subseteq> set (taggedKeys document)
                    \<union> (set (phidKeys (elementsList (n # ns))) - set (phidKeys (elementsList ns'))))"
    have kept: ?goal
      if rest: "findPatternDeepChildren q ps ns skip' domOld document = Inr (rest', domOld', document')"
        and ns': "ns' = n # rest'"
      for skip' rest'
    proof -
      from IH2 rest
      have sub: "set (phidKeys (elementsList rest')) \<subseteq> set (phidKeys (elementsList ns))"
        and tag: "distinct (phidKeys (elementsList ns))
            \<Longrightarrow> list_all plainIdentifier (phidKeys (elementsList ns))
            \<Longrightarrow> set (taggedKeys document')
                \<subseteq> set (taggedKeys document)
                  \<union> (set (phidKeys (elementsList ns)) - set (phidKeys (elementsList rest')))"
        by blast+
      show ?thesis
      proof (intro conjI impI)
        show "set (phidKeys (elementsList ns')) \<subseteq> set (phidKeys (elementsList (n # ns)))"
          using sub ns' by (auto simp: phidKeys_append)
        assume dist: "distinct (phidKeys (elementsList (n # ns)))"
          and plain: "list_all plainIdentifier (phidKeys (elementsList (n # ns)))"
        then have "distinct (phidKeys (elementsList ns))"
          and "list_all plainIdentifier (phidKeys (elementsList ns))"
          and "set (phidKeys (elements n)) \<inter> set (phidKeys (elementsList ns)) = {}"
          by (simp_all add: phidKeys_append)
        with tag ns'
        show "set (taggedKeys document')
            \<subseteq> set (taggedKeys document)
              \<union> (set (phidKeys (elementsList (n # ns))) - set (phidKeys (elementsList ns')))"
          by (auto simp: phidKeys_append)
      qed
    qed
    show ?goal
    proof (cases "isText n \<or> skip")
      case True
      with run obtain skip' rest'
        where "findPatternDeepChildren q ps ns skip' domOld document = Inr (rest', domOld', document')"
          and "ns' = n # rest'"
        by (auto split: sum.splits if_splits)
      then show ?thesis by (rule kept)
    next
      case False
      with run obtain r domOld1 document1
        where child: "findPatternDeep q ps n domOld document = Inr (r, domOld1, document1)"
        by (auto split: sum.splits)
      from IH1 child
      have sub1: "set (phidKeys (remaining r)) \<subseteq> set (phidKeys (elements n))"
        and tag1: "distinct (phidKeys (elements n))
            \<Longrightarrow> list_all plainIdentifier (phidKeys (elements n))
            \<Longrightarrow> set (taggedKeys document1)
                \<subseteq> set (taggedKeys document)
                  \<union> (set (phidKeys (elements n)) - set (phidKeys (remaining r)))"
        by blast+
      from run False child obtain skip' rest'
        where rest: "findPatternDeepChildren q ps ns skip' domOld1 document1
            = Inr (rest', domOld', document')"
          and ns': "elementsList ns' = remaining r @ elementsList rest'"
        by (cases r) (auto split: sum.splits)
      from IH2 rest
      have sub2: "set (phidKeys (elementsList rest')) \<subseteq> set (phidKeys (elementsList ns))"
        and tag2: "distinct (phidKeys (elementsList ns))
            \<Longrightarrow> list_all plainIdentifier (phidKeys (elementsList ns))
            \<Longrightarrow> set (taggedKeys document')
                \<subseteq> set (taggedKeys document1)
                  \<union> (set (phidKeys (elementsList ns)) - set (phidKeys (elementsList rest')))"
        by blast+
      show ?thesis
      proof (intro conjI impI)
        show "set (phidKeys (elementsList ns')) \<subseteq> set (phidKeys (elementsList (n # ns)))"
          using sub1 sub2 ns' by (auto simp: phidKeys_append)
        assume dist: "distinct (phidKeys (elementsList (n # ns)))"
          and plain: "list_all plainIdentifier (phidKeys (elementsList (n # ns)))"
        then have d1: "distinct (phidKeys (elements n))"
          and d2: "distinct (phidKeys (elementsList ns))"
          and p1: "list_all plainIdentifier (phidKeys (elements n))"
          and p2: "list_all plainIdentifier (phidKeys (elementsList ns))"
          and disj: "set (phidKeys (elements n)) \<inter> set (phidKeys (elementsList ns)) = {}"
          by (simp_all add: phidKeys_append)
        have e1: "set (phidKeys (elementsList (n # ns)))
            = set (phidKeys (elements n)) \<union> set (phidKeys (elementsList ns))"
          by (simp add: phidKeys_append)
        have e2: "set (phidKeys (elementsList ns'))
            = set (phidKeys (remaining r)) \<union> set (phidKeys (elementsList rest'))"
          unfolding ns' by (simp add: phidKeys_append)
        show "set (taggedKeys document')
            \<subseteq> set (taggedKeys document)
              \<union> (set (phidKeys (elementsList (n # ns))) - set (phidKeys (elementsList ns')))"
          unfolding e1 e2 using tag1 [OF d1 p1] tag2 [OF d2 p2] sub1 sub2 disj by blast
      qed
    qed
  qed
qed

lemmas pass_defs = classify_def patternConfig_def offerBody_def offerChildren_def offerDocument_def
  offerDocumentTagged_def taggedDiv_def taggedSpan_def bodyElement_def htmlElement_def
  documentNode_def documentOf_def el_def
  visitNode_def getElementByPhid_def locateByPhid_def hasPhid_def phidText_def
  plainIdentifier_def toString_def
  tagElement_def removeNodeOld_def classListAdd_def asciiWhitespace_def
  extensionClassPrefix_def patternDetectedClassName_def
  countdownDE_def countdownEN_def countdownDetection_def scarcity_def scarcityRegex_def
  scarcityEN_def scarcityRegexEN_def socialProof_def socialProofRegex_def
  socialProofEN_def socialProofRegexEN_def forcedContinuity_def forcedContinuityRegex_def
  forcedContinuityEN_def forcedContinuityRegexEN_def amountDE_def amountEN_def numberEN_def
  ordinalEN_def regex_defs countdown_defs messageKeys_def

text \<open>
  The pass over the offer page, both snapshots being the page as it is: the inner
  element is tagged and removed from both snapshots, then the outer element, whose
  remaining text still is a scarcity text, and the body is left without children.
\<close>

lemma offer_children:
  "findPatternDeepChildren noOtherSelectors (patternConfig messageKeys) offerChildren False
       offerBody offerDocument
     = Inr ([], Element bodyElement [], offerDocumentTagged)"
  by (simp add: pass_defs)

lemma offer_pass:
  "findPatternDeep noOtherSelectors (patternConfig messageKeys) offerBody offerBody offerDocument
     = Inr (Some (Element bodyElement []), Element bodyElement [], offerDocumentTagged)"
  by (simp add: pass_defs)

lemma offer_keys: "distinct (phidKeys (elements offerBody))"
  by (simp add: phidKeys_def phidText_def offerBody_def offerChildren_def bodyElement_def el_def
      str_def)

lemma offer_untagged: "set (taggedKeys offerDocument) \<inter> set (phidKeys (elements offerBody)) = {}"
  by (simp add: set_taggedKeys tagged_def offerDocument_def offerBody_def offerChildren_def
      bodyElement_def htmlElement_def documentNode_def documentOf_def el_def)

lemma offer_children_keys: "distinct (phidKeys (elementsList offerChildren))"
  by (simp add: phidKeys_def phidText_def offerChildren_def el_def str_def)

lemma offer_children_untagged:
  "set (taggedKeys offerDocument) \<inter> set (phidKeys (elementsList offerChildren)) = {}"
  by (simp add: set_taggedKeys tagged_def offerDocument_def offerBody_def offerChildren_def
      bodyElement_def htmlElement_def documentNode_def documentOf_def el_def)

text \<open>
  The loop over the live collection of children: on the page with two offers side by
  side the first is tagged and removed, and the second, which has moved into its place
  in the collection, is passed over and stays untagged in the snapshot; the body is
  then tested on the text of the second offer, matches, and is removed (no live
  element has its identifier, so no tag is set for it).
\<close>

lemma sibling_after_match_passed_over:
  "findPatternDeepChildren noOtherSelectors (patternConfig messageKeys) twinChildren False
       twinBody (documentOf twinBody)
     = Inr ([Element (el ''span'' ''1'') [Text (str ''3 St'' @ [252] @ str ''ck verkauft'')]],
            Element bodyElement
              [Element (el ''span'' ''1'') [Text (str ''3 St'' @ [252] @ str ''ck verkauft'')]],
            twinDocumentTagged)
   \<and> findPatternDeep noOtherSelectors (patternConfig messageKeys) twinBody twinBody
       (documentOf twinBody)
     = Inr (None,
            Element bodyElement
              [Element (el ''span'' ''1'') [Text (str ''3 St'' @ [252] @ str ''ck verkauft'')]],
            twinDocumentTagged)"
  by (simp add: pass_defs twinBody_def twinChildren_def twinDocumentTagged_def)

text \<open>
  The identifiers that \<open>addPhidForEveryElement\<close> assigns with a counter that is a
  number, and the text \<open>undefined\<close>, are plain.
\<close>

lemma toDecimal_digits: "list_all (\<lambda>c. 48 \<le> c \<and> c \<le> 57) (toDecimal n)"
proof (induction n rule: toDecimal.induct)
  case (1 n)
  show ?case
  proof (cases "n < 10")
    case True
    then show ?thesis by (subst toDecimal.simps) simp
  next
    case False
    then have "list_all (\<lambda>c. 48 \<le> c \<and> c \<le> 57) (toDecimal (n div 10))" by (rule "1.IH")
    moreover have "n mod 10 < 10" by simp
    ultimately show ?thesis using False by (subst toDecimal.simps) simp
  qed
qed

lemma plainIdentifier_assigned:
  "plainIdentifier (phidText (Some (toDecimal n))) \<and> plainIdentifier (phidText None)"
proof -
  have "c \<notin> set [0, 10, 12, 13, 34, 92] \<and> \<not> (55296 \<le> c \<and> c \<le> 57343)"
    if "48 \<le> c \<and> c \<le> 57" for c :: nat
    using that by auto
  then have "plainIdentifier (toDecimal n)"
    unfolding plainIdentifier_def using toDecimal_digits [of n]
    by (auto simp: list_all_iff)
  then show ?thesis by (simp add: phidText_def plainIdentifier_def str_def)
qed

lemma offer_plain: "list_all plainIdentifier (phidKeys (elements offerBody))"
  by (simp add: phidKeys_def phidText_def plainIdentifier_def offerBody_def offerChildren_def
      bodyElement_def el_def str_def)

lemma offer_children_plain: "list_all plainIdentifier (phidKeys (elementsList offerChildren))"
  by (simp add: phidKeys_def phidText_def plainIdentifier_def offerChildren_def el_def str_def)

text \<open>
  Claim C1 says that after a pass no tagged element has a tagged ancestor. On the
  offer page the pass tags the inner element and the element around it: the live
  document, which had no tag, has a tagged element below a tagged element.
\<close>

theorem nested_tags_counterexample:
  "classify noOtherSelectors (patternConfig messageKeys) offerBody offerBody offerDocument
     = Some offerDocumentTagged
   \<and> nestedTags offerDocumentTagged
   \<and> \<not> nestedTags offerDocument
   \<and> distinct (phidKeys (elements offerBody))
   \<and> list_all plainIdentifier (phidKeys (elements offerBody))"
proof -
  have "classify noOtherSelectors (patternConfig messageKeys) offerBody offerBody offerDocument
      = Some offerDocumentTagged"
    by (simp add: classify_def offer_pass)
  moreover have "nestedTags offerDocumentTagged"
    by (simp add: offerDocumentTagged_def documentOf_def tagged_def taggedDiv_def taggedSpan_def el_def)
  moreover have "\<not> nestedTags offerDocument"
    by (simp add: offerDocument_def documentOf_def offerBody_def offerChildren_def tagged_def
        bodyElement_def htmlElement_def documentNode_def el_def)
  ultimately show ?thesis using offer_keys offer_plain by blast
qed

text \<open>
  Claim C1, amended. A tagged element can have a tagged ancestor: the ancestor is
  tagged as well when a detection function matches what is left of it. What the
  post-order pruning gives, for a newer snapshot whose elements have different
  identifiers, all of them plain (as the decimal numbers are that the extension
  assigns) and none of them tagged in the live document at the start: every element
  that the pass tags is removed from the newer snapshot at once. So the identifiers
  tagged by the pass are identifiers of removed elements, and none of the elements
  that are left in the snapshot is tagged; in particular, when the loop over the
  children of an element has ended and the element is tested, nothing that is left
  below it is tagged. The statement holds for every selector engine, which is not
  called for plain identifiers.
\<close>

theorem tagged_elements_are_pruned:
  assumes "findPatternDeep q ps newer older document = Inr (r, older', document')"
    and "distinct (phidKeys (elements newer))"
    and "list_all plainIdentifier (phidKeys (elements newer))"
    and "set (taggedKeys document) \<inter> set (phidKeys (elements newer)) = {}"
  shows "set (taggedKeys document') \<inter> set (phidKeys (remaining r)) = {}
     \<and> set (taggedKeys document')
         \<subseteq> set (taggedKeys document)
           \<union> (set (phidKeys (elements newer)) - set (phidKeys (remaining r)))
     \<and> set (phidKeys (remaining r)) \<subseteq> set (phidKeys (elements newer))
     \<and> (findPatternDeepChildren q ps cs False domOld live = Inr (cs', domOld', live')
          \<longrightarrow> distinct (phidKeys (elementsList cs))
          \<longrightarrow> list_all plainIdentifier (phidKeys (elementsList cs))
          \<longrightarrow> set (taggedKeys live) \<inter> set (phidKeys (elementsList cs)) = {}
          \<longrightarrow> set (taggedKeys live') \<inter> set (phidKeys (elementsList cs')) = {})"
proof -
  from pruning_both [where q = q and ps = ps and n = newer and ns = "[]"] assms(1)
  have sub: "set (phidKeys (remaining r)) \<subseteq> set (phidKeys (elements newer))"
    and tag: "distinct (phidKeys (elements newer))
        \<Longrightarrow> list_all plainIdentifier (phidKeys (elements newer))
        \<Longrightarrow> set (taggedKeys document')
            \<subseteq> set (taggedKeys document)
              \<union> (set (phidKeys (elements newer)) - set (phidKeys (remaining r)))"
    by blast+
  have children: "set (taggedKeys live') \<inter> set (phidKeys (elementsList cs')) = {}"
    if run: "findPatternDeepChildren q ps cs False domOld live = Inr (cs', domOld', live')"
      and dist: "distinct (phidKeys (elementsList cs))"
      and plain: "list_all plainIdentifier (phidKeys (elementsList cs))"
      and clean: "set (taggedKeys live) \<inter> set (phidKeys (elementsList cs)) = {}"
  proof -
    from pruning_both [where q = q and ps = ps and n = "Text []" and ns = cs] run
    have "set (phidKeys (elementsList cs')) \<subseteq> set (phidKeys (elementsList cs))"
      and "distinct (phidKeys (elementsList cs))
        \<Longrightarrow> list_all plainIdentifier (phidKeys (elementsList cs))
        \<Longrightarrow> set (taggedKeys live')
            \<subseteq> set (taggedKeys live)
              \<union> (set (phidKeys (elementsList cs)) - set (phidKeys (elementsList cs')))"
      by blast+
    with dist plain clean show ?thesis by blast
  qed
  from sub tag [OF assms(2) assms(3)] assms(4) children show ?thesis by blast
qed

theorem tagged_elements_are_pruned_witness:
  "findPatternDeep noOtherSelectors (patternConfig messageKeys) offerBody offerBody offerDocument
     = Inr (Some (Element bodyElement []), Element bodyElement [], offerDocumentTagged)
   \<and> distinct (phidKeys (elements offerBody))
   \<and> list_all plainIdentifier (phidKeys (elements offerBody))
   \<and> set (taggedKeys offerDocument) \<inter> set (phidKeys (elements offerBody)) = {}
   \<and> findPatternDeepChildren noOtherSelectors (patternConfig messageKeys) offerChildren False
         offerBody offerDocument
       = Inr ([], Element bodyElement [], offerDocumentTagged)
   \<and> distinct (phidKeys (elementsList offerChildren))
   \<and> list_all plainIdentifier (phidKeys (elementsList offerChildren))
   \<and> set (taggedKeys offerDocument) \<inter> set (phidKeys (elementsList offerChildren)) = {}
   \<and> set (taggedKeys offerDocumentTagged)
       \<inter> set (phidKeys (remaining (Some (Element bodyElement [])))) = {}
   \<and> set (taggedKeys offerDocumentTagged)
       \<subseteq> set (taggedKeys offerDocument)
         \<union> (set (phidKeys (elements offerBody))
             - set (phidKeys (remaining (Some (Element bodyElement [])))))
   \<and> set (taggedKeys offerDocumentTagged) \<inter> set (phidKeys (elementsList [])) = {}"
proof -
  note T = tagged_elements_are_pruned [OF offer_pass offer_keys offer_plain offer_untagged,
      where cs = offerChildren and domOld = offerBody and live = offerDocument
        and cs' = "[]" and domOld' = "Element bodyElement []" and live' = offerDocumentTagged]
  from T offer_children offer_children_keys offer_children_plain offer_children_untagged
  have "set (taggedKeys offerDocumentTagged) \<inter> set (phidKeys (elementsList [])) = {}"
    by blast
  with T show ?thesis
    using offer_pass offer_keys offer_plain offer_untagged offer_children offer_children_keys
      offer_children_plain offer_children_untagged
    by blast
qed

end
